theory Spec2Isabelle
  imports Complex_Main
begin

section \<open>Multi-contact walking pattern generator: a model of the control pipeline\<close>

text \<open>
  The development follows \<^verbatim>\<open>examples/multi_contact_walking.py\<close>: the preview buffer, the
  walking finite-state machine, the COM tube and the tube predictive controller.

  Conventions of the model.
  \<^item> Python floats and the entries of numpy arrays are \<^typ>\<open>real\<close>; a numpy vector of
    shape (3,) is a triple, a vector of unknown length a list.
  \<^item> Every exception the modelled methods can raise is a value of \<open>py_error\<close>; a method
    that mutates its object returns the new object.
  \<^item> Methods of classes that live outside the modelled file (the stance's cones and
    equilibrium polygon, polygon clipping, the QP solver, pose interpolation) are
    arguments of the functions that call them.
\<close>

subsection \<open>Errors and strings\<close>

datatype py_error =
  AttributeError | IndexError | KeyError | TypeError | ValueError
  | ZeroDivisionError | UnboundLocalError | NotImplementedError | RuntimeError

definition startswith :: "string \<Rightarrow> string \<Rightarrow> bool" where
  "startswith s p = (take (length p) s = p)"

definition endswith :: "string \<Rightarrow> string \<Rightarrow> bool" where
  "endswith s p = (length p \<le> length s \<and> drop (length s - length p) s = p)"

subsection \<open>The preview buffer\<close>

text \<open>
  \<^verbatim>\<open>PreviewBuffer\<close>: the fields \<^verbatim>\<open>_U\<close> and \<^verbatim>\<open>_dT\<close> are \<^verbatim>\<open>None\<close> until the first update.
  The lock is not modelled: every method runs as one step.
\<close>

record preview_buffer =
  pb_U :: "real list option"
  pb_dT :: "real list option"
  default_control :: "real list \<times> real"
  cur_control :: "real list option"
  cur_index :: nat
  pb_nb_steps :: int
  pb_rem_time :: real
  pb_switch_step :: "int option"
  u_dim :: nat

definition PreviewBuffer :: "nat \<Rightarrow> preview_buffer" where
  "PreviewBuffer d =
     \<lparr>pb_U = None, pb_dT = None, default_control = (replicate d 0, 1 / 10),
      cur_control = None, cur_index = 0, pb_nb_steps = 0, pb_rem_time = 0,
      pb_switch_step = None, u_dim = d\<rparr>"

definition is_empty :: "preview_buffer \<Rightarrow> bool" where
  "is_empty s = (pb_U s = None)"

definition update_preview ::
  "real list \<Rightarrow> real list \<Rightarrow> int option \<Rightarrow> preview_buffer \<Rightarrow> preview_buffer" where
  "update_preview U dT sw s =
     s\<lparr>pb_U := Some U, pb_dT := Some dT, cur_index := 0, pb_nb_steps := int (length dT),
       pb_rem_time := 0, pb_switch_step := sw\<rparr>"

definition reset :: "preview_buffer \<Rightarrow> preview_buffer" where
  "reset s =
     s\<lparr>pb_U := None, pb_dT := None, cur_control := None, cur_index := 0,
       pb_rem_time := 0\<rparr>"

text \<open>
  \<^verbatim>\<open>get_next_control\<close>: the slice \<^verbatim>\<open>_U[j:j + u_dim]\<close> is clipped to the array, so it is
  empty once \<^verbatim>\<open>j\<close> reaches the end (or when \<^verbatim>\<open>u_dim\<close> is zero); \<^verbatim>\<open>_dT[cur_index]\<close>
  raises outside the list.
\<close>

definition get_next_control ::
  "preview_buffer \<Rightarrow> py_error + ((real list \<times> real) \<times> preview_buffer)" where
  "get_next_control s =
     (case pb_U s of
        None \<Rightarrow> Inr (default_control s, s)
      | Some U \<Rightarrow>
          (let j = u_dim s * cur_index s;
               u = take (u_dim s) (drop j U)
           in if length u = 0 then Inr (default_control s, s)
              else (case pb_dT s of
                      None \<Rightarrow> Inl TypeError
                    | Some dT \<Rightarrow>
                        if cur_index s < length dT
                        then Inr ((u, dT ! cur_index s), s\<lparr>cur_index := cur_index s + 1\<rparr>)
                        else Inl IndexError)))"

text \<open>\<open>n\<close> successive calls of \<^verbatim>\<open>get_next_control\<close>, collecting what they return.\<close>

fun next_controls ::
  "nat \<Rightarrow> preview_buffer \<Rightarrow> py_error + ((real list \<times> real) list \<times> preview_buffer)" where
  "next_controls 0 s = Inr ([], s)"
| "next_controls (Suc n) s =
     (case get_next_control s of
        Inl e \<Rightarrow> Inl e
      | Inr (c, s') \<Rightarrow>
          (case next_controls n s' of
             Inl e \<Rightarrow> Inl e
           | Inr (cs, s'') \<Rightarrow> Inr (c # cs, s'')))"

text \<open>The \<open>i\<close>-th pair stored by \<^verbatim>\<open>update_preview(U, dT)\<close> for control dimension \<open>d\<close>.\<close>

definition stored_pair :: "nat \<Rightarrow> real list \<Rightarrow> real list \<Rightarrow> nat \<Rightarrow> real list \<times> real" where
  "stored_pair d U dT i = (take d (drop (d * i) U), dT ! i)"

subsection \<open>Vectors\<close>

text \<open>
  numpy arithmetic on arrays of shape (3,). Dividing an array by a zero scalar gives
  \<^verbatim>\<open>nan\<close> or \<^verbatim>\<open>inf\<close> entries in numpy and \<open>0\<close> in HOL; no theorem below depends on the
  value of such an entry.
\<close>

type_synonym vec3 = "real \<times> real \<times> real"

type_synonym vec2 = "real \<times> real"

type_synonym matrix = "real list list"

definition vadd :: "vec3 \<Rightarrow> vec3 \<Rightarrow> vec3" where
  "vadd u v = (case u of (a, b, c) \<Rightarrow> case v of (x, y, z) \<Rightarrow> (a + x, b + y, c + z))"

definition vsub :: "vec3 \<Rightarrow> vec3 \<Rightarrow> vec3" where
  "vsub u v = (case u of (a, b, c) \<Rightarrow> case v of (x, y, z) \<Rightarrow> (a - x, b - y, c - z))"

definition smul :: "real \<Rightarrow> vec3 \<Rightarrow> vec3" where
  "smul k v = (case v of (x, y, z) \<Rightarrow> (k * x, k * y, k * z))"

definition sdiv :: "vec3 \<Rightarrow> real \<Rightarrow> vec3" where
  "sdiv v k = (case v of (x, y, z) \<Rightarrow> (x / k, y / k, z / k))"

definition dot :: "vec3 \<Rightarrow> vec3 \<Rightarrow> real" where
  "dot u v = (case u of (a, b, c) \<Rightarrow> case v of (x, y, z) \<Rightarrow> a * x + b * y + c * z)"

definition cross :: "vec3 \<Rightarrow> vec3 \<Rightarrow> vec3" where
  "cross u v =
     (case u of (a, b, c) \<Rightarrow> case v of (x, y, z) \<Rightarrow>
        (b * z - c * y, c * x - a * z, a * y - b * x))"

definition vabs :: "vec3 \<Rightarrow> vec3" where
  "vabs v = (case v of (x, y, z) \<Rightarrow> (\<bar>x\<bar>, \<bar>y\<bar>, \<bar>z\<bar>))"

definition all_less :: "vec3 \<Rightarrow> real \<Rightarrow> bool" where
  "all_less v k = (case v of (x, y, z) \<Rightarrow> x < k \<and> y < k \<and> z < k)"

definition z_of :: "vec3 \<Rightarrow> real" where
  "z_of v = (case v of (x, y, z) \<Rightarrow> z)"

text \<open>\<^verbatim>\<open>pymanoid.misc.norm\<close> and \<^verbatim>\<open>pymanoid.misc.normalize\<close>.\<close>

definition norm_vec :: "vec3 \<Rightarrow> real" where
  "norm_vec v = sqrt (dot v v)"

definition normalize_vec :: "vec3 \<Rightarrow> vec3" where
  "normalize_vec v = sdiv v (norm_vec v)"

text \<open>Python's \<^verbatim>\<open>xs[i]\<close> on a list, and \<^verbatim>\<open>int(x)\<close> on a float (truncation towards zero).\<close>

definition py_index :: "'a list \<Rightarrow> int \<Rightarrow> py_error + 'a" where
  "py_index xs i =
     (if 0 \<le> i \<and> i < int (length xs) then Inr (xs ! nat i)
      else if i < 0 \<and> - int (length xs) \<le> i then Inr (xs ! nat (int (length xs) + i))
      else Inl IndexError)"

definition py_int :: "real \<Rightarrow> int" where
  "py_int x = (if 0 \<le> x then \<lfloor>x\<rfloor> else \<lceil>x\<rceil>)"

subsection \<open>Contacts, stances and the swing foot\<close>

text \<open>
  Of a \<^verbatim>\<open>Contact\<close> the walking code reads the tangent vector \<^verbatim>\<open>t\<close> and the \<^verbatim>\<open>pose\<close>; of a
  \<^verbatim>\<open>Stance\<close> the label, the duration, the COM reference \<^verbatim>\<open>com.p\<close> and the two foot
  contacts, each of which may be \<^verbatim>\<open>None\<close>.
\<close>

type_synonym pose = "real list"

record contact =
  contact_t :: vec3
  contact_pose :: pose

record stance =
  label :: string
  duration :: real
  com_p :: vec3
  left_foot :: "contact option"
  right_foot :: "contact option"

text \<open>
  The library functions \<^verbatim>\<open>SwingFoot\<close> calls: \<^verbatim>\<open>interpolate_pose_linear\<close>, \<^verbatim>\<open>quat_slerp\<close>, and
  the third column \<^verbatim>\<open>rotation_matrix_from_quat(q)[0:3, 2]\<close> of a rotation matrix.
\<close>

record pose_lib =
  interpolate_pose_linear :: "pose \<Rightarrow> pose \<Rightarrow> real \<Rightarrow> pose"
  quat_slerp :: "real list \<Rightarrow> real list \<Rightarrow> real \<Rightarrow> real list"
  rotation_z_axis :: "real list \<Rightarrow> real list"

record swing_foot_obj =
  end_pose :: "pose option"
  mid_pose :: "pose option"
  start_pose :: "pose option"
  swing_height :: real
  body_pose :: "pose option"

definition SwingFoot :: "real \<Rightarrow> swing_foot_obj" where
  "SwingFoot h =
     \<lparr>end_pose = None, mid_pose = None, start_pose = None, swing_height = h,
      body_pose = None\<rparr>"

definition swing_reset :: "pose_lib \<Rightarrow> pose \<Rightarrow> pose \<Rightarrow> swing_foot_obj \<Rightarrow> swing_foot_obj" where
  "swing_reset lib p0 p1 sf =
     (let mid = interpolate_pose_linear lib p0 p1 (1 / 2);
          mid_n = rotation_z_axis lib (take 4 mid);
          mid' = take 4 mid @ map2 (+) (drop 4 mid) (map ((*) (swing_height sf)) mid_n)
      in sf\<lparr>body_pose := Some p0, start_pose := Some p0, mid_pose := Some mid',
            end_pose := Some p1\<rparr>)"

definition interpolate_between ::
  "pose_lib \<Rightarrow> pose option \<Rightarrow> pose option \<Rightarrow> real \<Rightarrow> swing_foot_obj \<Rightarrow> py_error + swing_foot_obj" where
  "interpolate_between lib pose0 pose1 y sf =
     (case (pose0, pose1) of
        (Some p0, Some p1) \<Rightarrow>
          (let pos = map2 (+) (map ((*) (1 - y)) (drop 4 p0)) (map ((*) y) (drop 4 p1));
               quat = quat_slerp lib (take 4 p0) (take 4 p1) y
           in Inr (sf\<lparr>body_pose := Some (quat @ pos)\<rparr>))
      | _ \<Rightarrow> Inl TypeError)"

definition update_pose :: "pose_lib \<Rightarrow> real \<Rightarrow> swing_foot_obj \<Rightarrow> py_error + swing_foot_obj" where
  "update_pose lib s sf =
     (if s \<ge> 1 then Inr sf
      else if s \<le> 1 / 2
        then interpolate_between lib (start_pose sf) (mid_pose sf) (2 * s) sf
      else interpolate_between lib (mid_pose sf) (end_pose sf) (2 * s - 1) sf)"

subsection \<open>The robot and its inverse kinematics tasks\<close>

text \<open>
  Modelled from the spec: the IK solver, which is not part of the modelled file. It
  exposes \<^verbatim>\<open>add(task)\<close> and \<^verbatim>\<open>remove(name)\<close>, keyed by body-part name; \<^verbatim>\<open>tasks[name]\<close>
  is a dictionary lookup.
\<close>

datatype task =
  ContactTask string contact real
  | PoseTask string real

fun task_weight :: "task \<Rightarrow> real" where
  "task_weight (ContactTask _ _ w) = w"
| "task_weight (PoseTask _ w) = w"

fun task_name :: "task \<Rightarrow> string" where
  "task_name (ContactTask n _ _) = n"
| "task_name (PoseTask n _) = n"

record robot_obj =
  robot_com :: vec3
  left_foot_name :: string
  right_foot_name :: string
  ik_tasks :: "string \<rightharpoonup> task"

definition ik_remove :: "string \<Rightarrow> robot_obj \<Rightarrow> robot_obj" where
  "ik_remove n r = r\<lparr>ik_tasks := (ik_tasks r)(n := None)\<rparr>"

definition ik_add :: "task \<Rightarrow> robot_obj \<Rightarrow> robot_obj" where
  "ik_add tk r = r\<lparr>ik_tasks := (ik_tasks r)(task_name tk \<mapsto> tk)\<rparr>"

subsection \<open>The walking finite-state machine\<close>

text \<open>
  \<^verbatim>\<open>MultiContactWalkingFSM\<close>. The field \<open>robot\<close> holds what the machine reads of the robot:
  its current COM and its IK tasks.
\<close>

record walking_fsm =
  cur_phase :: string
  cur_stance :: stance
  cur_stance_id :: int
  cycle :: bool
  is_over :: bool
  nb_stances :: int
  rem_time :: real
  robot :: robot_obj
  stances :: "stance list"
  swing_foot :: swing_foot_obj

definition MultiContactWalkingFSM ::
  "stance list \<Rightarrow> robot_obj \<Rightarrow> real \<Rightarrow> bool \<Rightarrow> py_error + walking_fsm" where
  "MultiContactWalkingFSM sts rb h cyc =
     (case py_index sts 0 of
        Inl e \<Rightarrow> Inl e
      | Inr st0 \<Rightarrow>
          Inr \<lparr>cur_phase = label st0, cur_stance = st0, cur_stance_id = 0, cycle = cyc,
               is_over = False, nb_stances = int (length sts), rem_time = duration st0,
               robot = rb, stances = sts, swing_foot = SwingFoot h\<rparr>)"

definition next_stance :: "walking_fsm \<Rightarrow> py_error + stance" where
  "next_stance s =
     (let next_stance_id = cur_stance_id s + 1;
          next_stance_id =
            (if next_stance_id \<ge> nb_stances s
             then (if cycle s then 0 else cur_stance_id s)
             else next_stance_id)
      in py_index (stances s) next_stance_id)"

definition next_next_stance :: "walking_fsm \<Rightarrow> py_error + stance" where
  "next_next_stance s =
     (let next_next_stance_id = cur_stance_id s + 2
      in if next_next_stance_id \<ge> nb_stances s
         then (if cycle s
               then (if nb_stances s = 0 then Inl ZeroDivisionError
                     else py_index (stances s) (next_next_stance_id mod nb_stances s))
               else py_index (stances s) (nb_stances s - 1))
         else py_index (stances s) next_next_stance_id)"

text \<open>\<^verbatim>\<open>stance_foot.t\<close>, where \<^verbatim>\<open>stance_foot\<close> may be \<^verbatim>\<open>None\<close>.\<close>

definition foot_t :: "contact option \<Rightarrow> py_error + vec3" where
  "foot_t f = (case f of None \<Rightarrow> Inl AttributeError | Some c \<Rightarrow> Inr (contact_t c))"

definition foot_pose :: "contact option \<Rightarrow> py_error + pose" where
  "foot_pose f = (case f of None \<Rightarrow> Inl AttributeError | Some c \<Rightarrow> Inr (contact_pose c))"

text \<open>
  \<^verbatim>\<open>get_preview_targets\<close> returns \<^verbatim>\<open>(rem_time, horizon, target_com, target_comd)\<close>.
\<close>

definition get_preview_targets ::
  "walking_fsm \<Rightarrow> py_error + (real \<times> real \<times> vec3 \<times> vec3)" where
  "get_preview_targets s =
     (let stance_foot =
            (if endswith (label (cur_stance s)) ''L'' then left_foot (cur_stance s)
             else right_foot (cur_stance s))
      in if startswith (label (cur_stance s)) ''SS''
            \<and> rem_time s < (1 / 2) * duration (cur_stance s)
         then (case next_stance s of
                 Inl e \<Rightarrow> Inl e
               | Inr ns \<Rightarrow>
                   (case next_next_stance s of
                      Inl e \<Rightarrow> Inl e
                    | Inr nns \<Rightarrow>
                        (let horizon = rem_time s + duration ns + (1 / 2) * duration nns;
                             target_com = com_p ns;
                             target_comd = sdiv (vsub target_com (com_p (cur_stance s))) horizon
                         in Inr (rem_time s, horizon, target_com, target_comd))))
         else if startswith (label (cur_stance s)) ''DS''
         then (case next_stance s of
                 Inl e \<Rightarrow> Inl e
               | Inr ns \<Rightarrow>
                   (let horizon = rem_time s + (1 / 2) * duration ns;
                        target_com = com_p (cur_stance s)
                    in case foot_t stance_foot of
                         Inl e \<Rightarrow> Inl e
                       | Inr ft \<Rightarrow> Inr (rem_time s, horizon, target_com, smul (4 / 10) ft)))
         else (let horizon = rem_time s;
                   target_com = com_p (cur_stance s)
               in case foot_t stance_foot of
                    Inl e \<Rightarrow> Inl e
                  | Inr ft \<Rightarrow> Inr (rem_time s, horizon, target_com, smul (4 / 10) ft)))"

text \<open>
  The guard of \<^verbatim>\<open>on_tick\<close>. \<open>dist_to_sep_edge\<close> is the stance's method of that name: the
  distance of a point inside the stance's static-equilibrium polygon.
\<close>

definition can_switch_to_ss ::
  "(stance \<Rightarrow> vec3 \<Rightarrow> real) \<Rightarrow> walking_fsm \<Rightarrow> py_error + bool" where
  "can_switch_to_ss dist_to_sep_edge s =
     (case next_stance s of
        Inl e \<Rightarrow> Inl e
      | Inr ns \<Rightarrow> Inr (dist_to_sep_edge ns (robot_com (robot s)) > - (15 / 100)))"

definition update_robot_ik :: "walking_fsm \<Rightarrow> py_error + walking_fsm" where
  "update_robot_ik s =
     (let rb = robot s in
      case ik_tasks rb (left_foot_name rb) of
        None \<Rightarrow> Inl KeyError
      | Some prev_lf_task \<Rightarrow>
          (case ik_tasks rb (right_foot_name rb) of
             None \<Rightarrow> Inl KeyError
           | Some prev_rf_task \<Rightarrow>
               (let contact_weight = max (task_weight prev_lf_task) (task_weight prev_rf_task);
                    swing_weight = 1 / 10;
                    rb1 = ik_remove (right_foot_name rb) (ik_remove (left_foot_name rb) rb);
                    left_foot_task =
                      (case left_foot (cur_stance s) of
                         Some c \<Rightarrow> ContactTask (left_foot_name rb) c contact_weight
                       | None \<Rightarrow> PoseTask (left_foot_name rb) swing_weight);
                    right_foot_task =
                      (case right_foot (cur_stance s) of
                         Some c \<Rightarrow> ContactTask (right_foot_name rb) c contact_weight
                       | None \<Rightarrow> PoseTask (right_foot_name rb) swing_weight)
                in Inr (s\<lparr>robot := ik_add right_foot_task (ik_add left_foot_task rb1)\<rparr>))))"

text \<open>
  The last branch of \<^verbatim>\<open>on_tick\<close>, in two parts: the swing foot is reset from the stances
  read before the switch, then the machine moves to the next stance. A result is the
  machine after the call, what was printed, and the exception raised, if any.
\<close>

definition swing_handover :: "pose_lib \<Rightarrow> walking_fsm \<Rightarrow> py_error + swing_foot_obj" where
  "swing_handover lib s =
     (let side =
            (if label (cur_stance s) = ''DS-R''
             then (case next_next_stance s of
                     Inl e \<Rightarrow> Inl e
                   | Inr nns \<Rightarrow>
                       if label nns = ''DS-L'' then Inr (Some (left_foot (cur_stance s), left_foot nns))
                       else Inr None)
             else Inr None);
          side =
            (case side of
               Inr None \<Rightarrow>
                 (if label (cur_stance s) = ''DS-L''
                  then (case next_next_stance s of
                          Inl e \<Rightarrow> Inl e
                        | Inr nns \<Rightarrow>
                            if label nns = ''DS-R''
                            then Inr (Some (right_foot (cur_stance s), right_foot nns))
                            else Inr None)
                  else Inr None)
             | other \<Rightarrow> other)
      in case side of
           Inl e \<Rightarrow> Inl e
         | Inr None \<Rightarrow> Inr (swing_foot s)
         | Inr (Some (f0, f1)) \<Rightarrow>
             (case foot_pose f0 of
                Inl e \<Rightarrow> Inl e
              | Inr p0 \<Rightarrow>
                  (case foot_pose f1 of
                     Inl e \<Rightarrow> Inl e
                   | Inr p1 \<Rightarrow> Inr (swing_reset lib p0 p1 (swing_foot s)))))"

definition switch_stance ::
  "pose_lib \<Rightarrow> walking_fsm \<Rightarrow> walking_fsm \<times> string list \<times> py_error option" where
  "switch_stance lib s =
     (case swing_handover lib s of
        Inl e \<Rightarrow> (s, [], Some e)
      | Inr sf \<Rightarrow>
          (let s1 = s\<lparr>swing_foot := sf\<rparr> in
           if nb_stances s1 = 0 then (s1, [], Some ZeroDivisionError)
           else
             (let s2 = s1\<lparr>cur_stance_id := (cur_stance_id s1 + 1) mod nb_stances s1\<rparr> in
              case py_index (stances s2) (cur_stance_id s2) of
                Inl e \<Rightarrow> (s2, [], Some e)
              | Inr st \<Rightarrow>
                  (let s3 = s2\<lparr>cur_stance := st, rem_time := duration st\<rparr> in
                   case update_robot_ik s3 of
                     Inl e \<Rightarrow> (s3, [], Some e)
                   | Inr s4 \<Rightarrow> (s4, [], None)))))"

definition finish_or_switch ::
  "pose_lib \<Rightarrow> walking_fsm \<Rightarrow> walking_fsm \<times> string list \<times> py_error option" where
  "finish_or_switch lib s =
     (if cur_stance_id s = nb_stances s - 1 \<and> \<not> cycle s
      then (s\<lparr>is_over := True\<rparr>, [], None)
      else switch_stance lib s)"

definition not_ready_message :: string where
  "not_ready_message = ''FSM: not ready for single-support yet...''"

definition on_tick ::
  "pose_lib \<Rightarrow> (stance \<Rightarrow> vec3 \<Rightarrow> real) \<Rightarrow> real \<Rightarrow> walking_fsm
     \<Rightarrow> walking_fsm \<times> string list \<times> py_error option" where
  "on_tick lib dist_to_sep_edge dt s =
     (if is_over s then (s, [], None)
      else if rem_time s > 0 then
        (if startswith (label (cur_stance s)) ''SS'' then
           (if duration (cur_stance s) = 0 then (s, [], Some ZeroDivisionError)
            else (case update_pose lib (1 - rem_time s / duration (cur_stance s))
                         (swing_foot s) of
                    Inl e \<Rightarrow> (s, [], Some e)
                  | Inr sf \<Rightarrow> (s\<lparr>swing_foot := sf, rem_time := rem_time s - dt\<rparr>, [], None)))
         else (s\<lparr>rem_time := rem_time s - dt\<rparr>, [], None))
      else if startswith (label (cur_stance s)) ''DS'' then
        (case can_switch_to_ss dist_to_sep_edge s of
           Inl e \<Rightarrow> (s, [], Some e)
         | Inr ready \<Rightarrow>
             if \<not> ready then (s, [not_ready_message], None)
             else finish_or_switch lib s)
      else finish_or_switch lib s)"

text \<open>
  A run of the machine: before each tick the world sets the robot's COM, then
  \<^verbatim>\<open>on_tick\<close> runs with that tick's \<^verbatim>\<open>sim.dt\<close>. A tick that raises leaves the machine as
  it was when the exception occurred; a run that stops there is a prefix of this one.
\<close>

definition set_robot_com :: "vec3 \<Rightarrow> walking_fsm \<Rightarrow> walking_fsm" where
  "set_robot_com c s = s\<lparr>robot := (robot s)\<lparr>robot_com := c\<rparr>\<rparr>"

fun run ::
  "pose_lib \<Rightarrow> (stance \<Rightarrow> vec3 \<Rightarrow> real) \<Rightarrow> (real \<times> vec3) list \<Rightarrow> walking_fsm \<Rightarrow> walking_fsm"
  where
  "run lib dse [] s = s"
| "run lib dse ((dt, c) # ins) s = run lib dse ins (fst (on_tick lib dse dt (set_robot_com c s)))"

text \<open>
  The invariant of the machine's bookkeeping (see \<open>constructor_ok\<close> and \<open>on_tick_ok\<close>
  below).
\<close>

definition fsm_ok :: "walking_fsm \<Rightarrow> bool" where
  "fsm_ok s =
     (nb_stances s = int (length (stances s)) \<and> 0 \<le> cur_stance_id s
      \<and> cur_stance_id s < nb_stances s
      \<and> cur_stance s = stances s ! nat (cur_stance_id s))"

text \<open>The foot \<^verbatim>\<open>get_preview_targets\<close> takes as the stance foot.\<close>

definition stance_foot_of :: "stance \<Rightarrow> contact option" where
  "stance_foot_of st = (if endswith (label st) ''L'' then left_foot st else right_foot st)"

subsection \<open>A small walking scene\<close>

text \<open>
  Two contacts, a double-support and a single-support stance on the right foot, and a
  robot whose COM is not at the stances' COM reference. The concrete instances below are
  built from them.
\<close>

definition ex_left :: contact where
  "ex_left = \<lparr>contact_t = (1, 0, 0), contact_pose = [1, 0, 0, 0, 0, 1 / 10, 0]\<rparr>"

definition ex_right :: contact where
  "ex_right = \<lparr>contact_t = (1, 0, 0), contact_pose = [1, 0, 0, 0, 2 / 10, - (1 / 10), 0]\<rparr>"

definition ex_ds :: stance where
  "ex_ds = \<lparr>label = ''DS-R'', duration = 7 / 10, com_p = (2 / 10, - (1 / 10), 8 / 10),
            left_foot = Some ex_left, right_foot = Some ex_right\<rparr>"

definition ex_ss :: stance where
  "ex_ss = \<lparr>label = ''SS-R'', duration = 1, com_p = (4 / 10, - (1 / 10), 8 / 10),
            left_foot = None, right_foot = Some ex_right\<rparr>"

definition ex_robot :: robot_obj where
  "ex_robot = \<lparr>robot_com = (0, 0, 8 / 10), left_foot_name = ''L_FOOT'',
               right_foot_name = ''R_FOOT'', ik_tasks = Map.empty\<rparr>"

definition ex_lib :: pose_lib where
  "ex_lib = \<lparr>interpolate_pose_linear = (\<lambda>p q u. p), quat_slerp = (\<lambda>p q u. p),
             rotation_z_axis = (\<lambda>q. [0, 0, 1])\<rparr>"

text \<open>A machine over the sequence \<open>[ex_ds, ex_ss, ex_ds]\<close>, at stance \<open>i\<close> with \<open>r\<close> seconds left.\<close>

definition ex_fsm :: "int \<Rightarrow> real \<Rightarrow> bool \<Rightarrow> walking_fsm" where
  "ex_fsm i r over =
     \<lparr>cur_phase = ''DS-R'', cur_stance = [ex_ds, ex_ss, ex_ds] ! nat i, cur_stance_id = i,
      cycle = False, is_over = over, nb_stances = 3, rem_time = r, robot = ex_robot,
      stances = [ex_ds, ex_ss, ex_ds], swing_foot = SwingFoot (15 / 100)\<rparr>"

text \<open>
  An equilibrium-distance function for the scene: the support region of a stance reaches
  \<open>0.3\<close> either way along \<open>x\<close> from the stance's COM reference.
\<close>

definition ex_dist :: "stance \<Rightarrow> vec3 \<Rightarrow> real" where
  "ex_dist st c = 3 / 10 - \<bar>fst c - fst (com_p st)\<bar>"

subsection \<open>The COM tube\<close>

text \<open>
  \<^verbatim>\<open>COMTube\<close>. The attribute \<^verbatim>\<open>full_vrep\<close> exists only after \<^verbatim>\<open>compute_primal_vrep\<close>.
\<close>

record com_tube =
  dual_hrep :: "(matrix \<times> real list) list"
  dual_vrep :: "vec3 list list"
  margin :: real
  tube_next_stance :: stance
  primal_hrep :: "(matrix \<times> real list) list"
  primal_vrep :: "vec3 list list"
  radius :: real
  start_com :: vec3
  start_stance :: stance
  target_com :: vec3
  full_vrep :: "vec3 list option"
  full_hrep :: "(matrix \<times> real list) option"

definition COMTube ::
  "vec3 \<Rightarrow> vec3 \<Rightarrow> stance \<Rightarrow> stance \<Rightarrow> real \<Rightarrow> real \<Rightarrow> com_tube" where
  "COMTube sc tc st nst r m =
     \<lparr>dual_hrep = [], dual_vrep = [], margin = m, tube_next_stance = nst,
      primal_hrep = [], primal_vrep = [], radius = r, start_com = sc, start_stance = st,
      target_com = tc, full_vrep = None, full_hrep = None\<rparr>"

definition tube_vertices :: "com_tube \<Rightarrow> vec3 list" where
  "tube_vertices tb =
     (let delta = vsub (target_com tb) (start_com tb);
          n = normalize_vec delta;
          t = (0, 0, 1);
          t = vsub t (smul (dot t n) n);
          t = normalize_vec t;
          b = cross n t;
          cross_section =
            map (\<lambda>(dx, dy). vadd (smul dx t) (smul dy b))
              [(radius tb, radius tb), (radius tb, - radius tb),
               (- radius tb, radius tb), (- radius tb, - radius tb)];
          tube_start = vsub (start_com tb) (smul (margin tb) n);
          tube_end = vadd (target_com tb) (smul (margin tb) n)
      in map (vadd tube_start) cross_section @ map (vadd tube_end) cross_section)"

definition compute_primal_vrep :: "com_tube \<Rightarrow> com_tube" where
  "compute_primal_vrep tb =
     (let vertices = tube_vertices tb;
          tb1 = tb\<lparr>full_vrep := Some vertices\<rparr>
      in if startswith (label (start_stance tb)) ''SS''
         then (if all_less (vabs (vsub (com_p (start_stance tb)) (target_com tb))) (1 / 1000)
               then tb1\<lparr>primal_vrep := [vertices]\<rparr>
               else tb1\<lparr>primal_vrep := [[start_com tb], vertices]\<rparr>)
         else tb1\<lparr>primal_vrep := [vertices, [target_com tb]]\<rparr>)"

text \<open>
  What \<^verbatim>\<open>compute_dual_vrep\<close> calls outside the file: the stance's
  \<^verbatim>\<open>compute_pendular_accel_cone\<close>, with and without \<^verbatim>\<open>reduced=True\<close>, the polygon clipping
  \<^verbatim>\<open>intersect_polygons\<close>, and the simulator's \<^verbatim>\<open>gravity\<close> vector.
\<close>

record cone_lib =
  pendular_cone :: "stance \<Rightarrow> vec3 list \<Rightarrow> vec3 list"
  pendular_cone_reduced :: "stance \<Rightarrow> vec3 list \<Rightarrow> vec2 list"
  intersect_polygons :: "vec2 list \<Rightarrow> vec2 list \<Rightarrow> vec2 list"
  gravity :: vec3

definition expand_reduced_pendular_cone ::
  "vec3 \<Rightarrow> vec2 list \<Rightarrow> real option \<Rightarrow> vec3 list" where
  "expand_reduced_pendular_cone grav reduced_hull zdd_max =
     (let g = - z_of grav;
          zdd = (case zdd_max of None \<Rightarrow> g | Some z \<Rightarrow> z);
          vertices_at_zdd = map (\<lambda>(a, b). (a * (g + zdd), b * (g + zdd), zdd)) reduced_hull
      in grav # vertices_at_zdd)"

definition get_full_vrep :: "com_tube \<Rightarrow> py_error + vec3 list" where
  "get_full_vrep tb = (case full_vrep tb of None \<Rightarrow> Inl AttributeError | Some v \<Rightarrow> Inr v)"

text \<open>
  The two reduced cones of \<^verbatim>\<open>compute_dual_vrep\<close>, as the pair
  \<^verbatim>\<open>(ds_vertices_2d, ss_vertices_2d)\<close> before the intersection.
\<close>

definition reduced_cones ::
  "cone_lib \<Rightarrow> bool \<Rightarrow> com_tube \<Rightarrow> py_error + (vec2 list \<times> vec2 list)" where
  "reduced_cones lib ds_then_ss tb =
     (if ds_then_ss
      then (case get_full_vrep tb of
              Inl e \<Rightarrow> Inl e
            | Inr fv \<Rightarrow>
                (case py_index (primal_vrep tb) 1 of
                   Inl e \<Rightarrow> Inl e
                 | Inr pv1 \<Rightarrow>
                     Inr (pendular_cone_reduced lib (start_stance tb) fv,
                          pendular_cone_reduced lib (tube_next_stance tb) pv1)))
      else (case py_index (primal_vrep tb) 0 of
              Inl e \<Rightarrow> Inl e
            | Inr pv0 \<Rightarrow>
                (case get_full_vrep tb of
                   Inl e \<Rightarrow> Inl e
                 | Inr fv \<Rightarrow>
                     Inr (pendular_cone_reduced lib (tube_next_stance tb) fv,
                          pendular_cone_reduced lib (start_stance tb) pv0))))"

definition compute_dual_vrep :: "cone_lib \<Rightarrow> com_tube \<Rightarrow> py_error + com_tube" where
  "compute_dual_vrep lib tb =
     (if length (primal_vrep tb) = 1
      then Inr (tb\<lparr>dual_vrep := [pendular_cone lib (start_stance tb) (hd (primal_vrep tb))]\<rparr>)
      else (case py_index (primal_vrep tb) 0 of
              Inl e \<Rightarrow> Inl e
            | Inr pv0 \<Rightarrow>
                (let ds_then_ss = length pv0 > 1 in
                 case reduced_cones lib ds_then_ss tb of
                   Inl e \<Rightarrow> Inl e
                 | Inr (ds_vertices_2d, ss_vertices_2d) \<Rightarrow>
                     (let ss_vertices_2d = intersect_polygons lib ds_vertices_2d ss_vertices_2d;
                          ds_cone = expand_reduced_pendular_cone (gravity lib) ds_vertices_2d None;
                          ss_cone = expand_reduced_pendular_cone (gravity lib) ss_vertices_2d None
                      in if ds_then_ss
                         then Inr (tb\<lparr>dual_vrep := [ds_cone, ss_cone]\<rparr>)
                         else Inr (tb\<lparr>dual_vrep := [ss_cone, ds_cone]\<rparr>)))))"

subsection \<open>The tube predictive controller\<close>

record point_mass =
  pm_p :: vec3
  pm_pd :: vec3

text \<open>
  The \<^verbatim>\<open>LinearPredictiveControl\<close> object as \<^verbatim>\<open>compute_preview_control\<close> builds it, with the
  two attributes \<^verbatim>\<open>switch_step\<close> and \<^verbatim>\<open>timestep\<close> it sets afterwards.
\<close>

record lpc =
  lpc_A :: matrix
  lpc_B :: matrix
  lpc_C :: "matrix option list"
  lpc_D :: "matrix list"
  lpc_e :: "real list list"
  x_init :: "real list"
  x_goal :: "real list"
  nb_steps :: int
  wxt :: real
  wu :: real
  switch_step :: int
  timestep :: real

record mpc =
  com :: point_mass
  fsm :: walking_fsm
  last_phase_id :: int
  nb_mpc_steps :: int
  preview_buffer :: preview_buffer
  preview_control :: "lpc option"
  mpc_target_com :: point_mass
  tube :: "com_tube option"
  tube_radius :: real

definition vec_list :: "vec3 \<Rightarrow> real list" where
  "vec_list v = (case v of (x, y, z) \<Rightarrow> [x, y, z])"

definition matrix_A :: "real \<Rightarrow> matrix" where
  "matrix_A dT =
     [[1, 0, 0, dT, 0, 0], [0, 1, 0, 0, dT, 0], [0, 0, 1, 0, 0, dT],
      [0, 0, 0, 1, 0, 0], [0, 0, 0, 0, 1, 0], [0, 0, 0, 0, 0, 1]]"

definition matrix_B :: "real \<Rightarrow> matrix" where
  "matrix_B dT =
     [[(1 / 2) * dT ^ 2, 0, 0], [0, (1 / 2) * dT ^ 2, 0], [0, 0, (1 / 2) * dT ^ 2],
      [dT, 0, 0], [0, dT, 0], [0, 0, dT]]"

text \<open>
  The loop \<^verbatim>\<open>for k in range(nb_mpc_steps)\<close>: step \<open>k\<close> takes the first pair when
  \<^verbatim>\<open>k <= switch_step\<close>, and otherwise reads the local variables \<^verbatim>\<open>D2, e2\<close>, which are bound
  only if the assignment before the loop ran.
\<close>

fun assign_steps :: "'a \<Rightarrow> 'a option \<Rightarrow> int \<Rightarrow> nat list \<Rightarrow> py_error + 'a list" where
  "assign_steps c1 c2 sw [] = Inr []"
| "assign_steps c1 c2 sw (k # ks) =
     (if int k \<le> sw
      then (case assign_steps c1 c2 sw ks of Inl e \<Rightarrow> Inl e | Inr cs \<Rightarrow> Inr (c1 # cs))
      else (case c2 of
              None \<Rightarrow> Inl UnboundLocalError
            | Some c \<Rightarrow>
                (case assign_steps c1 c2 sw ks of Inl e \<Rightarrow> Inl e | Inr cs \<Rightarrow> Inr (c # cs))))"

text \<open>The second pair, read only when \<^verbatim>\<open>0 <= switch_step < nb_mpc_steps - 1\<close>.\<close>

definition second_pair :: "'a list \<Rightarrow> int \<Rightarrow> int \<Rightarrow> py_error + 'a option" where
  "second_pair hrep sw n =
     (if 0 \<le> sw \<and> sw < n - 1
      then (case py_index hrep 1 of Inl e \<Rightarrow> Inl e | Inr c \<Rightarrow> Inr (Some c))
      else Inr None)"

definition step_constraints ::
  "'a list \<Rightarrow> int \<Rightarrow> int \<Rightarrow> py_error + 'a list" where
  "step_constraints hrep sw n =
     (case py_index hrep 0 of
        Inl e \<Rightarrow> Inl e
      | Inr c1 \<Rightarrow>
          (case second_pair hrep sw n of
             Inl e \<Rightarrow> Inl e
           | Inr c2 \<Rightarrow> assign_steps c1 c2 sw [0..<nat n]))"

definition qp_failed_message :: string where
  "qp_failed_message = ''MPC couldn't solve QP, constraints may be inconsistent''"

text \<open>
  \<^verbatim>\<open>compute_preview_control\<close>, in two parts. The first is everything before the
  \<^verbatim>\<open>try\<close> block: it builds the \<^verbatim>\<open>LinearPredictiveControl\<close> problem or raises.
\<close>

definition preview_problem :: "real \<Rightarrow> real \<Rightarrow> bool \<Rightarrow> mpc \<Rightarrow> py_error + lpc" where
  "preview_problem switch_time horizon state_constraints s =
     (if nb_mpc_steps s = 0 then Inl ZeroDivisionError
      else
        (let dT = horizon / real_of_int (nb_mpc_steps s) in
         if dT = 0 then Inl ZeroDivisionError
         else
           (let sw = py_int (switch_time / dT) in
            case tube s of
              None \<Rightarrow> Inl AttributeError
            | Some tb \<Rightarrow>
                (case step_constraints (dual_hrep tb) sw (nb_mpc_steps s) of
                   Inl e \<Rightarrow> Inl e
                 | Inr De \<Rightarrow>
                     if state_constraints
                     then (case full_hrep tb of
                             None \<Rightarrow> Inl AttributeError
                           | Some Ef \<Rightarrow> Inl NotImplementedError)
                     else
                       Inr \<lparr>lpc_A = matrix_A dT, lpc_B = matrix_B dT,
                            lpc_C = replicate (nat (nb_mpc_steps s)) None,
                            lpc_D = map fst De, lpc_e = map snd De,
                            x_init = vec_list (pm_p (com s)) @ vec_list (pm_pd (com s)),
                            x_goal = vec_list (pm_p (mpc_target_com s))
                                       @ vec_list (pm_pd (mpc_target_com s)),
                            nb_steps = nb_mpc_steps s, wxt = 1000, wu = 1,
                            switch_step = sw, timestep = dT\<rparr>))))"

text \<open>
  The second part stores the problem and runs the \<^verbatim>\<open>try\<close> block. \<open>solve\<close> stands for
  \<^verbatim>\<open>LinearPredictiveControl.solve\<close> followed by \<^verbatim>\<open>U.flatten()\<close>: the stacked controls, or
  the exception \<^verbatim>\<open>solve()\<close> raises. Only \<^verbatim>\<open>ValueError\<close> is caught.
\<close>

definition compute_preview_control ::
  "(lpc \<Rightarrow> py_error + real list) \<Rightarrow> real \<Rightarrow> real \<Rightarrow> bool \<Rightarrow> mpc
     \<Rightarrow> mpc \<times> string list \<times> py_error option" where
  "compute_preview_control solve switch_time horizon state_constraints s =
     (case preview_problem switch_time horizon state_constraints s of
        Inl e \<Rightarrow> (s, [], Some e)
      | Inr pc \<Rightarrow>
          (let s1 = s\<lparr>preview_control := Some pc\<rparr>
           in case solve pc of
                Inr U \<Rightarrow>
                  (s1\<lparr>preview_buffer :=
                        (update_preview U
                           (replicate (nat (nb_mpc_steps s)) (timestep pc)) None
                           (preview_buffer s1))
                        \<lparr>pb_nb_steps := nb_mpc_steps s,
                         pb_switch_step := Some (switch_step pc)\<rparr>\<rparr>, [], None)
              | Inl ValueError \<Rightarrow> (s1, [qp_failed_message], None)
              | Inl e \<Rightarrow> (s1, [], Some e)))"

subsection \<open>A small tube and controller\<close>

text \<open>
  Stand-ins for the cone library on the scene above: the reduced cone of a stance is a
  square centred at the origin, of half-width \<open>1\<close> in double support and \<open>1/2\<close> in single
  support, and two such nested squares intersect in the inner one.
\<close>

definition ex_square :: "real \<Rightarrow> vec2 list" where
  "ex_square a = [(a, a), (a, - a), (- a, - a), (- a, a)]"

definition ex_cones :: cone_lib where
  "ex_cones =
     \<lparr>pendular_cone = (\<lambda>st vs. [(0, 0, - (981 / 100))]),
      pendular_cone_reduced =
        (\<lambda>st vs. if startswith (label st) ''DS'' then ex_square 1 else ex_square (1 / 2)),
      intersect_polygons = (\<lambda>p q. if fst (hd q) \<le> fst (hd p) then q else p),
      gravity = (0, 0, - (981 / 100))\<rparr>"

text \<open>A tube from the robot's COM to the double-support reference, started in double
  support, and one started in single support.\<close>

definition ex_tube_ds :: com_tube where
  "ex_tube_ds = COMTube (0, 0, 8 / 10) (2 / 10, - (1 / 10), 8 / 10) ex_ds ex_ss (1 / 100) (1 / 100)"

definition ex_tube_ss :: com_tube where
  "ex_tube_ss = COMTube (0, 0, 8 / 10) (2 / 10, - (1 / 10), 8 / 10) ex_ss ex_ds (1 / 100) (1 / 100)"

text \<open>
  A tube whose start and target COM agree within \<open>1e-3\<close> while the start stance's COM
  reference is elsewhere.
\<close>

definition ex_tube_still :: com_tube where
  "ex_tube_still =
     COMTube (0, 0, 8 / 10) (0, 0, 8005 / 10000) ex_ss ex_ds (1 / 100) (1 / 100)"

text \<open>A controller with twenty steps whose tube carries two dual halfspace pairs.\<close>

definition ex_hrep :: "(matrix \<times> real list) list" where
  "ex_hrep = [([[1, 0, 0]], [1]), ([[0, 1, 0]], [2])]"

definition ex_mpc :: mpc where
  "ex_mpc =
     \<lparr>com = \<lparr>pm_p = (0, 0, 8 / 10), pm_pd = (0, 0, 0)\<rparr>,
      fsm = ex_fsm 0 0 False, last_phase_id = - 1, nb_mpc_steps = 20,
      preview_buffer = update_preview [1, 2, 3] [1 / 10] None (PreviewBuffer 3),
      preview_control = None,
      mpc_target_com = \<lparr>pm_p = (2 / 10, - (1 / 10), 8 / 10), pm_pd = (4 / 10, 0, 0)\<rparr>,
      tube = Some (ex_tube_ds\<lparr>dual_hrep := ex_hrep\<rparr>),
      tube_radius = 1 / 100\<rparr>"

text \<open>A solver that finds every problem infeasible.\<close>

definition ex_infeasible :: "lpc \<Rightarrow> py_error + real list" where
  "ex_infeasible pc = Inl ValueError"

text \<open>Where a run at the last stance of a sequence that does not cycle can be.\<close>

definition at_last :: "walking_fsm \<Rightarrow> walking_fsm \<Rightarrow> bool" where
  "at_last s s' =
     (fsm_ok s' \<and> \<not> cycle s' \<and> nb_stances s' = nb_stances s
      \<and> cur_stance_id s' = nb_stances s - 1)"

section \<open>Properties\<close>

subsection \<open>The preview buffer hands out the stored controls in order\<close>

lemma next_controls_add:
  "next_controls (a + b) s =
     (case next_controls a s of
        Inl e \<Rightarrow> Inl e
      | Inr (cs, s') \<Rightarrow>
          (case next_controls b s' of
             Inl e \<Rightarrow> Inl e
           | Inr (cs', s'') \<Rightarrow> Inr (cs @ cs', s'')))"
  by (induction a arbitrary: s) (auto split: sum.splits prod.splits)

lemma get_next_control_stored:
  assumes "pb_U t = Some U" "pb_dT t = Some dT" "0 < u_dim t"
    "length U = length dT * u_dim t" "cur_index t < length dT"
  shows "get_next_control t =
     Inr (stored_pair (u_dim t) U dT (cur_index t), t\<lparr>cur_index := cur_index t + 1\<rparr>)"
proof -
  have "u_dim t * cur_index t < length U"
    using assms by (simp add: mult.commute)
  then show ?thesis
    using assms by (simp add: get_next_control_def stored_pair_def Let_def)
qed

lemma get_next_control_exhausted:
  assumes "pb_U t = Some U" "length U = length dT * u_dim t" "cur_index t \<ge> length dT"
  shows "get_next_control t = Inr (default_control t, t)"
proof -
  have "length U \<le> u_dim t * cur_index t"
    using assms by (simp add: mult.commute)
  then show ?thesis
    using assms by (simp add: get_next_control_def Let_def)
qed

lemma next_controls_exhausted:
  assumes "pb_U t = Some U" "length U = length dT * u_dim t" "cur_index t \<ge> length dT"
  shows "next_controls m t = Inr (replicate m (default_control t), t)"
  by (induction m) (simp_all add: get_next_control_exhausted [OF assms] replicate_app_Cons_same)

lemma next_controls_stored:
  assumes "pb_U t = Some U" "pb_dT t = Some dT" "0 < u_dim t"
    "length U = length dT * u_dim t" "cur_index t + n = length dT"
  shows "next_controls n t =
     Inr (map (stored_pair (u_dim t) U dT) [cur_index t..<length dT],
          t\<lparr>cur_index := length dT\<rparr>)"
  using assms
proof (induction n arbitrary: t)
  case 0
  then show ?case by simp
next
  case (Suc n)
  let ?t' = "t\<lparr>cur_index := cur_index t + 1\<rparr>"
  have lt: "cur_index t < length dT" using Suc.prems by simp
  have step: "get_next_control t = Inr (stored_pair (u_dim t) U dT (cur_index t), ?t')"
    using Suc.prems lt by (intro get_next_control_stored) simp_all
  have rest: "next_controls n ?t' =
     Inr (map (stored_pair (u_dim ?t') U dT) [cur_index ?t'..<length dT],
          ?t'\<lparr>cur_index := length dT\<rparr>)"
    using Suc.prems by (intro Suc.IH) simp_all
  have "[cur_index t..<length dT] = cur_index t # [cur_index t + 1..<length dT]"
    using lt by (simp add: upt_conv_Cons)
  then show ?case using step rest by simp
qed

lemma reset_next_controls:
  "next_controls m (reset s) = Inr (replicate m (default_control s), reset s)"
proof (induction m)
  case 0
  then show ?case by simp
next
  case (Suc m)
  have "get_next_control (reset s) = Inr (default_control s, reset s)"
    by (simp add: get_next_control_def reset_def)
  then show ?case using Suc by simp
qed

text \<open>
  Claim C6, as stated, fails for a buffer of control dimension zero: every slice of
  \<^verbatim>\<open>_U\<close> is then empty, so the first call after an update already returns the default
  pair \<^verbatim>\<open>(zeros(0), 0.1)\<close> and not the stored pair, whose duration here is \<open>0.5\<close>.
\<close>

theorem C6_zero_dimension_counterexample:
  "get_next_control (update_preview [] [5 / 10] None (PreviewBuffer 0)) =
     Inr (([], 1 / 10), update_preview [] [5 / 10] None (PreviewBuffer 0))
   \<and> stored_pair 0 [] [5 / 10] 0 = ([], 5 / 10)"
  by (simp add: get_next_control_def update_preview_def PreviewBuffer_def stored_pair_def)

text \<open>
  Claim C6, amended: for every preview buffer with control dimension \<open>u_dim \<ge> 1\<close> (whose
  default pair is the one the constructor sets), after \<^verbatim>\<open>update_preview(U, dT)\<close> with
  \<open>len(dT) = k\<close> and \<open>len(U) = k * u_dim\<close>, the first \<open>k\<close> calls of \<^verbatim>\<open>get_next_control\<close> return
  the \<open>k\<close> stored pairs in order and every later call returns the default pair (zero
  vector, \<open>0.1\<close>); after \<^verbatim>\<open>reset()\<close> every call returns the default pair. No call raises.
\<close>

theorem C6_controls_in_order:
  assumes "0 < u_dim s" "length U = length dT * u_dim s"
    "default_control s = (replicate (u_dim s) 0, 1 / 10)"
  shows "next_controls (length dT + m) (update_preview U dT sw s) =
           Inr (map (stored_pair (u_dim s) U dT) [0..<length dT]
                  @ replicate m (replicate (u_dim s) 0, 1 / 10),
                (update_preview U dT sw s)\<lparr>cur_index := length dT\<rparr>)
         \<and> next_controls m (reset s) = Inr (replicate m (replicate (u_dim s) 0, 1 / 10), reset s)"
proof -
  let ?t = "update_preview U dT sw s"
  let ?t' = "?t\<lparr>cur_index := length dT\<rparr>"
  have first: "next_controls (length dT) ?t =
      Inr (map (stored_pair (u_dim ?t) U dT) [cur_index ?t..<length dT], ?t')"
    using assms by (intro next_controls_stored) (simp_all add: update_preview_def)
  have after: "next_controls m ?t' = Inr (replicate m (default_control ?t'), ?t')"
    using assms by (intro next_controls_exhausted [where U = U and dT = dT])
      (simp_all add: update_preview_def)
  have "next_controls (length dT + m) ?t =
      Inr (map (stored_pair (u_dim s) U dT) [0..<length dT]
             @ replicate m (default_control s), ?t')"
    using first after by (simp add: next_controls_add update_preview_def)
  then show ?thesis
    using assms(3) reset_next_controls [of m s] by simp
qed

theorem C6_controls_in_order_witness:
  "next_controls 3 (update_preview [1, 2, 3, 4] [5 / 10, 7 / 10] None (PreviewBuffer 2)) =
     Inr ([([1, 2], 5 / 10), ([3, 4], 7 / 10), ([0, 0], 1 / 10)],
          (update_preview [1, 2, 3, 4] [5 / 10, 7 / 10] None (PreviewBuffer 2))\<lparr>cur_index := 2\<rparr>)"
  using C6_controls_in_order [of "PreviewBuffer 2" "[1, 2, 3, 4]" "[5 / 10, 7 / 10]" 1 None]
  by (simp add: PreviewBuffer_def stored_pair_def upt_rec numeral_2_eq_2 numeral_3_eq_3)

subsection \<open>The bookkeeping of the walking machine\<close>

text \<open>The constructor establishes \<open>fsm_ok\<close> and every tick keeps it, also a tick that raises.\<close>

lemma constructor_ok:
  assumes "MultiContactWalkingFSM sts rb h cyc = Inr s"
  shows "fsm_ok s \<and> \<not> is_over s \<and> cur_stance_id s = 0"
  using assms
  by (auto simp add: MultiContactWalkingFSM_def fsm_ok_def py_index_def split: if_splits)

lemma update_robot_ik_ok:
  assumes "update_robot_ik s = Inr s'" "fsm_ok s"
  shows "fsm_ok s'"
  using assms
  by (auto simp add: update_robot_ik_def fsm_ok_def Let_def split: option.splits)

lemma switch_stance_ok:
  assumes "fsm_ok s"
  shows "fsm_ok (fst (switch_stance lib s))"
proof (cases "swing_handover lib s")
  case (Inl e)
  then show ?thesis using assms by (simp add: switch_stance_def)
next
  case (Inr sf)
  let ?i = "(cur_stance_id s + 1) mod nb_stances s"
  let ?s2 = "s\<lparr>swing_foot := sf, cur_stance_id := ?i\<rparr>"
  have pos: "0 < nb_stances s" using assms unfolding fsm_ok_def by linarith
  have i: "0 \<le> ?i" "?i < nb_stances s"
    using pos by simp_all
  have idx: "py_index (stances s) ?i = Inr (stances s ! nat ?i)"
    using i assms by (simp add: py_index_def fsm_ok_def)
  let ?s3 = "?s2\<lparr>cur_stance := stances s ! nat ?i, rem_time := duration (stances s ! nat ?i)\<rparr>"
  have ok3: "fsm_ok ?s3"
    using assms i by (simp add: fsm_ok_def)
  have sw: "switch_stance lib s =
      (case update_robot_ik ?s3 of Inl e \<Rightarrow> (?s3, [], Some e) | Inr s4 \<Rightarrow> (s4, [], None))"
    using pos Inr idx by (simp add: switch_stance_def Let_def)
  show ?thesis
  proof (cases "update_robot_ik ?s3")
    case (Inl e)
    then show ?thesis using ok3 sw by simp
  next
    case (Inr s4)
    then have "fsm_ok s4" using ok3 by (rule update_robot_ik_ok)
    then show ?thesis using Inr sw by simp
  qed
qed

lemma on_tick_ok:
  assumes "fsm_ok s"
  shows "fsm_ok (fst (on_tick lib dse dt s))"
proof -
  have fin: "fsm_ok (fst (finish_or_switch lib s))"
    using assms switch_stance_ok [OF assms, of lib]
    by (auto simp add: finish_or_switch_def fsm_ok_def)
  show ?thesis
    using assms fin
    by (auto simp add: on_tick_def fsm_ok_def split: sum.split)
qed

text \<open>At the last stance of a sequence that does not cycle, both look-aheads stay put.\<close>

lemma next_stance_last:
  assumes "fsm_ok s" "\<not> cycle s" "cur_stance_id s = nb_stances s - 1"
  shows "next_stance s = Inr (cur_stance s)"
  using assms by (auto simp add: next_stance_def fsm_ok_def py_index_def Let_def)

lemma next_next_stance_last:
  assumes "fsm_ok s" "\<not> cycle s" "cur_stance_id s = nb_stances s - 1"
  shows "next_next_stance s = Inr (cur_stance s)"
  using assms by (auto simp add: next_next_stance_def fsm_ok_def py_index_def Let_def)

subsection \<open>The walking machine at the end of its sequence\<close>

text \<open>
  Claim C10: in a machine that does not cycle and whose current stance is the last of
  the sequence, \<^verbatim>\<open>next_stance\<close> is the current stance itself: neither the first stance
  nor an error. So the double-support guard measures the COM against the current
  stance, and the preview targets are computed from the current stance alone.
\<close>

theorem C10_next_stance_at_last:
  assumes "fsm_ok s" "\<not> cycle s" "cur_stance_id s = nb_stances s - 1"
  shows "next_stance s = Inr (cur_stance s)
    \<and> can_switch_to_ss dse s = Inr (dse (cur_stance s) (robot_com (robot s)) > - (15 / 100))
    \<and> get_preview_targets s =
        (if startswith (label (cur_stance s)) ''SS''
            \<and> rem_time s < (1 / 2) * duration (cur_stance s)
         then Inr (rem_time s,
                   rem_time s + duration (cur_stance s) + (1 / 2) * duration (cur_stance s),
                   com_p (cur_stance s),
                   sdiv (vsub (com_p (cur_stance s)) (com_p (cur_stance s)))
                     (rem_time s + duration (cur_stance s) + (1 / 2) * duration (cur_stance s)))
         else if startswith (label (cur_stance s)) ''DS''
         then (case foot_t (stance_foot_of (cur_stance s)) of
                 Inl e \<Rightarrow> Inl e
               | Inr ft \<Rightarrow>
                   Inr (rem_time s, rem_time s + (1 / 2) * duration (cur_stance s),
                        com_p (cur_stance s), smul (4 / 10) ft))
         else (case foot_t (stance_foot_of (cur_stance s)) of
                 Inl e \<Rightarrow> Inl e
               | Inr ft \<Rightarrow>
                   Inr (rem_time s, rem_time s, com_p (cur_stance s), smul (4 / 10) ft)))"
proof -
  have ns: "next_stance s = Inr (cur_stance s)"
    using assms by (rule next_stance_last)
  have nns: "next_next_stance s = Inr (cur_stance s)"
    using assms by (rule next_next_stance_last)
  have guard: "can_switch_to_ss dse s
      = Inr (dse (cur_stance s) (robot_com (robot s)) > - (15 / 100))"
    by (simp add: can_switch_to_ss_def ns)
  have targets: "get_preview_targets s = (if startswith (label (cur_stance s)) ''SS''
            \<and> rem_time s < (1 / 2) * duration (cur_stance s)
         then Inr (rem_time s,
                   rem_time s + duration (cur_stance s) + (1 / 2) * duration (cur_stance s),
                   com_p (cur_stance s),
                   sdiv (vsub (com_p (cur_stance s)) (com_p (cur_stance s)))
                     (rem_time s + duration (cur_stance s) + (1 / 2) * duration (cur_stance s)))
         else if startswith (label (cur_stance s)) ''DS''
         then (case foot_t (stance_foot_of (cur_stance s)) of
                 Inl e \<Rightarrow> Inl e
               | Inr ft \<Rightarrow>
                   Inr (rem_time s, rem_time s + (1 / 2) * duration (cur_stance s),
                        com_p (cur_stance s), smul (4 / 10) ft))
         else (case foot_t (stance_foot_of (cur_stance s)) of
                 Inl e \<Rightarrow> Inl e
               | Inr ft \<Rightarrow>
                   Inr (rem_time s, rem_time s, com_p (cur_stance s), smul (4 / 10) ft)))"
    by (simp add: get_preview_targets_def ns nns stance_foot_of_def Let_def split: sum.split)
  show ?thesis using ns guard targets by blast
qed

text \<open>The scene's machine at its last stance, a double support.\<close>

theorem C10_next_stance_at_last_witness:
  "next_stance (ex_fsm 2 0 False) = Inr ex_ds
   \<and> can_switch_to_ss ex_dist (ex_fsm 2 0 False) = Inr True
   \<and> get_preview_targets (ex_fsm 2 0 False)
       = Inr (0, 35 / 100, (2 / 10, - (1 / 10), 8 / 10), (4 / 10, 0, 0))"
proof -
  have ok: "fsm_ok (ex_fsm 2 0 False)"
    by (simp add: fsm_ok_def ex_fsm_def)
  have nc: "\<not> cycle (ex_fsm 2 0 False)"
    by (simp add: ex_fsm_def)
  have last: "cur_stance_id (ex_fsm 2 0 False) = nb_stances (ex_fsm 2 0 False) - 1"
    by (simp add: ex_fsm_def)
  show ?thesis
    using C10_next_stance_at_last [OF ok nc last, of ex_dist]
    by (simp add: ex_fsm_def ex_ds_def ex_right_def ex_dist_def ex_robot_def startswith_def
        endswith_def stance_foot_of_def foot_t_def smul_def)
qed


subsection \<open>Holding in double support\<close>

text \<open>
  Claim C7, amended: on a tick on which the remaining time has run out, the current
  label starts with \<open>DS\<close> and the COM's distance inside the next stance's equilibrium
  polygon is at most \<open>-0.15\<close>, \<^verbatim>\<open>on_tick\<close> leaves the whole machine unchanged (in particular
  \<^verbatim>\<open>cur_stance_id\<close>, \<^verbatim>\<open>cur_stance\<close> and \<^verbatim>\<open>rem_time\<close>) and raises nothing; it prints the
  diagnostic unless the machine is already over, in which case it prints nothing.
\<close>

theorem C7_hold_in_double_support:
  assumes "rem_time s \<le> 0" "startswith (label (cur_stance s)) ''DS''"
    "next_stance s = Inr ns" "dse ns (robot_com (robot s)) \<le> - (15 / 100)"
  shows "on_tick lib dse dt s = (s, if is_over s then [] else [not_ready_message], None)"
  using assms by (simp add: on_tick_def can_switch_to_ss_def)

text \<open>The first stance of the scene with its time run out and the COM at \<open>x = 1\<close>.\<close>

theorem C7_hold_in_double_support_witness:
  "on_tick ex_lib ex_dist (3 / 100) (set_robot_com (1, 0, 8 / 10) (ex_fsm 0 0 False))
     = (set_robot_com (1, 0, 8 / 10) (ex_fsm 0 0 False), [not_ready_message], None)"
proof -
  let ?s = "set_robot_com (1, 0, 8 / 10) (ex_fsm 0 0 False)"
  have r: "rem_time ?s \<le> 0"
    by (simp add: set_robot_com_def ex_fsm_def)
  have d: "startswith (label (cur_stance ?s)) ''DS''"
    by (simp add: set_robot_com_def ex_fsm_def ex_ds_def startswith_def)
  have n: "next_stance ?s = Inr ex_ss"
    by (simp add: next_stance_def set_robot_com_def ex_fsm_def py_index_def)
  have g: "ex_dist ex_ss (robot_com (robot ?s)) \<le> - (15 / 100)"
    by (simp add: set_robot_com_def ex_fsm_def ex_dist_def ex_ss_def)
  have o: "\<not> is_over ?s"
    by (simp add: set_robot_com_def ex_fsm_def)
  show ?thesis
    using C7_hold_in_double_support
        [where dse = ex_dist and lib = ex_lib and dt = "3 / 100", OF r d n g] o
    by simp
qed

text \<open>
  Claim C7, as stated, fails on a machine that is already over: all three conditions
  of the claim hold, the machine is left unchanged, and no diagnostic is printed, since
  \<^verbatim>\<open>on_tick\<close> returns at once when \<^verbatim>\<open>is_over\<close> is set.
\<close>

theorem C7_silent_when_over_counterexample:
  "rem_time (set_robot_com (1, 0, 8 / 10) (ex_fsm 2 0 True)) \<le> 0
   \<and> startswith (label (cur_stance (set_robot_com (1, 0, 8 / 10) (ex_fsm 2 0 True)))) ''DS''
   \<and> next_stance (set_robot_com (1, 0, 8 / 10) (ex_fsm 2 0 True)) = Inr ex_ds
   \<and> ex_dist ex_ds (robot_com (robot (set_robot_com (1, 0, 8 / 10) (ex_fsm 2 0 True))))
       \<le> - (15 / 100)
   \<and> on_tick ex_lib ex_dist (3 / 100) (set_robot_com (1, 0, 8 / 10) (ex_fsm 2 0 True))
       = (set_robot_com (1, 0, 8 / 10) (ex_fsm 2 0 True), [], None)"
  by (simp add: on_tick_def next_stance_def set_robot_com_def ex_fsm_def py_index_def
      ex_ds_def ex_dist_def startswith_def)


subsection \<open>The stance index while time remains and at the last stance\<close>

lemma on_tick_positive_time:
  assumes "rem_time s > 0"
  shows "cur_stance_id (fst (on_tick lib dse dt s)) = cur_stance_id s"
  using assms by (simp add: on_tick_def split: sum.split)

lemma finish_at_last:
  assumes "\<not> cycle s" "cur_stance_id s = nb_stances s - 1"
  shows "finish_or_switch lib s = (s\<lparr>is_over := True\<rparr>, [], None)"
  using assms by (simp add: finish_or_switch_def)

lemma on_tick_at_last:
  assumes "at_last s0 s"
  shows "at_last s0 (fst (on_tick lib dse dt s))
    \<and> (is_over s \<longrightarrow> is_over (fst (on_tick lib dse dt s)))"
proof -
  have fin: "finish_or_switch lib s = (s\<lparr>is_over := True\<rparr>, [], None)"
    using assms by (intro finish_at_last) (simp_all add: at_last_def)
  show ?thesis
    using assms
    by (auto simp add: on_tick_def fin at_last_def fsm_ok_def split: sum.split)
qed

lemma set_robot_com_at_last:
  "at_last s0 s \<Longrightarrow> at_last s0 (set_robot_com c s)"
  by (simp add: at_last_def fsm_ok_def set_robot_com_def)

lemma run_at_last:
  assumes "at_last s0 s"
  shows "at_last s0 (run lib dse ins s) \<and> (is_over s \<longrightarrow> is_over (run lib dse ins s))"
  using assms
proof (induction ins arbitrary: s)
  case Nil
  then show ?case by simp
next
  case (Cons a ins)
  obtain dt c where a: "a = (dt, c)" by (cases a)
  let ?s1 = "fst (on_tick lib dse dt (set_robot_com c s))"
  have one: "at_last s0 ?s1 \<and> (is_over (set_robot_com c s) \<longrightarrow> is_over ?s1)"
    using Cons.prems by (intro on_tick_at_last set_robot_com_at_last)
  have over: "is_over s \<longrightarrow> is_over ?s1"
    using one by (simp add: set_robot_com_def)
  have rest: "at_last s0 (run lib dse ins ?s1) \<and> (is_over ?s1 \<longrightarrow> is_over (run lib dse ins ?s1))"
    using one by (intro Cons.IH) simp
  show ?case using a over rest by simp
qed

lemma on_tick_finishes:
  assumes "\<not> cycle s" "cur_stance_id s = nb_stances s - 1" "\<not> is_over s" "rem_time s \<le> 0"
    "next_stance s = Inr ns"
    "\<not> startswith (label (cur_stance s)) ''DS'' \<or> dse ns (robot_com (robot s)) > - (15 / 100)"
  shows "on_tick lib dse dt s = (s\<lparr>is_over := True\<rparr>, [], None)"
  using assms by (auto simp add: on_tick_def can_switch_to_ss_def finish_at_last)

text \<open>
  Claim C8, amended: a tick entered with \<^verbatim>\<open>rem_time > 0\<close> leaves \<^verbatim>\<open>cur_stance_id\<close> unchanged.
  For a machine that does not cycle and stands at its last stance, \<^verbatim>\<open>cur_stance_id\<close>
  stays at the last index after any run of ticks, whatever the robot's COM and the tick
  lengths; \<^verbatim>\<open>is_over\<close>, once set, stays set; and a tick on which the time has run out
  and either the stance is not a double support or the guard passes sets \<^verbatim>\<open>is_over\<close>
  for good.
\<close>

theorem C8_index_fixed_and_finish:
  "(rem_time s > 0 \<longrightarrow> cur_stance_id (fst (on_tick lib dse dt s)) = cur_stance_id s)
   \<and> (fsm_ok s \<and> \<not> cycle s \<and> cur_stance_id s = nb_stances s - 1 \<longrightarrow>
        cur_stance_id (run lib dse ins s) = nb_stances s - 1
        \<and> (is_over s \<longrightarrow> is_over (run lib dse ins s))
        \<and> (\<not> is_over s \<and> rem_time s \<le> 0
             \<and> (\<not> startswith (label (cur_stance s)) ''DS''
                  \<or> dse (cur_stance s) (robot_com (robot s)) > - (15 / 100))
            \<longrightarrow> is_over (run lib dse ins (fst (on_tick lib dse dt s)))))"
proof (intro conjI impI)
  assume "rem_time s > 0"
  then show "cur_stance_id (fst (on_tick lib dse dt s)) = cur_stance_id s"
    by (rule on_tick_positive_time)
next
  assume a: "fsm_ok s \<and> \<not> cycle s \<and> cur_stance_id s = nb_stances s - 1"
  then have "at_last s s" by (simp add: at_last_def)
  then have "at_last s (run lib dse ins s)"
    using run_at_last by blast
  then show "cur_stance_id (run lib dse ins s) = nb_stances s - 1"
    by (simp add: at_last_def)
next
  assume a: "fsm_ok s \<and> \<not> cycle s \<and> cur_stance_id s = nb_stances s - 1"
    and o: "is_over s"
  have "at_last s s" using a by (simp add: at_last_def)
  then show "is_over (run lib dse ins s)"
    using run_at_last o by blast
next
  assume a: "fsm_ok s \<and> \<not> cycle s \<and> cur_stance_id s = nb_stances s - 1"
    and b: "\<not> is_over s \<and> rem_time s \<le> 0
             \<and> (\<not> startswith (label (cur_stance s)) ''DS''
                  \<or> dse (cur_stance s) (robot_com (robot s)) > - (15 / 100))"
  have ns: "next_stance s = Inr (cur_stance s)"
    using a by (intro next_stance_last) simp_all
  have step: "on_tick lib dse dt s = (s\<lparr>is_over := True\<rparr>, [], None)"
    using a b ns by (intro on_tick_finishes [where ns = "cur_stance s"]) simp_all
  have "at_last s (s\<lparr>is_over := True\<rparr>)"
    using a by (auto simp add: at_last_def fsm_ok_def)
  then have "is_over (s\<lparr>is_over := True\<rparr>) \<longrightarrow> is_over (run lib dse ins (s\<lparr>is_over := True\<rparr>))"
    using run_at_last by blast
  then show "is_over (run lib dse ins (fst (on_tick lib dse dt s)))"
    by (simp add: step)
qed

text \<open>
  The scene's machine with time left at its first stance, and at its last stance with
  the COM inside the support region.
\<close>

theorem C8_index_fixed_and_finish_witness:
  "cur_stance_id (fst (on_tick ex_lib ex_dist (3 / 100) (ex_fsm 0 (5 / 10) False))) = 0
   \<and> cur_stance_id (run ex_lib ex_dist [(3 / 100, (1, 0, 8 / 10)), (3 / 100, (0, 0, 8 / 10))]
        (ex_fsm 2 0 False)) = 2
   \<and> is_over (run ex_lib ex_dist [(3 / 100, (1, 0, 8 / 10))]
        (fst (on_tick ex_lib ex_dist (3 / 100) (ex_fsm 2 0 False))))"
proof -
  have ok: "fsm_ok (ex_fsm 2 0 False) \<and> \<not> cycle (ex_fsm 2 0 False)
      \<and> cur_stance_id (ex_fsm 2 0 False) = nb_stances (ex_fsm 2 0 False) - 1"
    by (simp add: fsm_ok_def ex_fsm_def)
  have ready: "\<not> is_over (ex_fsm 2 0 False) \<and> rem_time (ex_fsm 2 0 False) \<le> 0
      \<and> (\<not> startswith (label (cur_stance (ex_fsm 2 0 False))) ''DS''
           \<or> ex_dist (cur_stance (ex_fsm 2 0 False)) (robot_com (robot (ex_fsm 2 0 False)))
               > - (15 / 100))"
    by (simp add: ex_fsm_def ex_dist_def ex_ds_def ex_robot_def)
  have pos: "rem_time (ex_fsm 0 (5 / 10) False) > 0"
    by (simp add: ex_fsm_def)
  have a: "cur_stance_id (fst (on_tick ex_lib ex_dist (3 / 100) (ex_fsm 0 (5 / 10) False))) = 0"
    using C8_index_fixed_and_finish [of "ex_fsm 0 (5 / 10) False" ex_lib ex_dist "3 / 100"] pos
    by (simp add: ex_fsm_def)
  have b: "cur_stance_id (run ex_lib ex_dist [(3 / 100, (1, 0, 8 / 10)), (3 / 100, (0, 0, 8 / 10))]
        (ex_fsm 2 0 False)) = 2"
    using C8_index_fixed_and_finish [of "ex_fsm 2 0 False" ex_lib ex_dist "3 / 100"
        "[(3 / 100, (1, 0, 8 / 10)), (3 / 100, (0, 0, 8 / 10))]"] ok
    by (simp add: ex_fsm_def)
  have c: "is_over (run ex_lib ex_dist [(3 / 100, (1, 0, 8 / 10))]
        (fst (on_tick ex_lib ex_dist (3 / 100) (ex_fsm 2 0 False))))"
    using C8_index_fixed_and_finish [of "ex_fsm 2 0 False" ex_lib ex_dist "3 / 100"
        "[(3 / 100, (1, 0, 8 / 10))]"] ok ready
    by blast
  show ?thesis using a b c by blast
qed

text \<open>
  Claim C8, as stated, fails when the last stance is a double support and the guard
  fails: the last stance's time has run out, each tick holds and prints the diagnostic,
  and \<^verbatim>\<open>is_over\<close> is still unset after three ticks (the tick is a fixed point, so after
  any number).
\<close>

theorem C8_never_over_counterexample:
  "\<not> cycle (set_robot_com (1, 0, 8 / 10) (ex_fsm 2 0 False))
   \<and> cur_stance_id (set_robot_com (1, 0, 8 / 10) (ex_fsm 2 0 False))
       = nb_stances (set_robot_com (1, 0, 8 / 10) (ex_fsm 2 0 False)) - 1
   \<and> rem_time (set_robot_com (1, 0, 8 / 10) (ex_fsm 2 0 False)) \<le> 0
   \<and> on_tick ex_lib ex_dist (3 / 100) (set_robot_com (1, 0, 8 / 10) (ex_fsm 2 0 False))
       = (set_robot_com (1, 0, 8 / 10) (ex_fsm 2 0 False), [not_ready_message], None)
   \<and> \<not> is_over (run ex_lib ex_dist
         [(3 / 100, (1, 0, 8 / 10)), (3 / 100, (1, 0, 8 / 10)), (3 / 100, (1, 0, 8 / 10))]
         (ex_fsm 2 0 False))"
  by (simp add: on_tick_def can_switch_to_ss_def next_stance_def set_robot_com_def ex_fsm_def
      py_index_def ex_ds_def ex_dist_def ex_robot_def startswith_def)


subsection \<open>The preview targets\<close>

lemma ds_not_ss: "startswith l ''DS'' \<Longrightarrow> \<not> startswith l ''SS''"
  by (auto simp add: startswith_def)

text \<open>
  Claim C4, amended: \<^verbatim>\<open>get_preview_targets\<close> returns \<^verbatim>\<open>rem_time\<close> and
  (i) in single support with \<^verbatim>\<open>rem_time < 0.5 * duration\<close>: the next stance's COM as
  target, horizon \<^verbatim>\<open>rem_time\<close> + next duration + half the duration after that, and the
  velocity (target - the current stance's COM reference) / horizon;
  (ii) in double support: the current stance's COM reference, horizon \<^verbatim>\<open>rem_time\<close> + half
  the next duration, and velocity \<open>0.4\<close> times the stance foot's tangent;
  (iii) in single support with \<^verbatim>\<open>rem_time >= 0.5 * duration\<close>: target and velocity as in
  (ii), horizon \<^verbatim>\<open>rem_time\<close>.
  In (i) a zero horizon gives \<^verbatim>\<open>inf\<close> or \<^verbatim>\<open>nan\<close> entries in numpy; the quotient is then
  HOL's.
\<close>

theorem C4_preview_targets:
  "(startswith (label (cur_stance s)) ''SS'' \<and> rem_time s < (1 / 2) * duration (cur_stance s)
      \<and> next_stance s = Inr ns \<and> next_next_stance s = Inr nns \<longrightarrow>
      get_preview_targets s =
        Inr (rem_time s, rem_time s + duration ns + (1 / 2) * duration nns, com_p ns,
             sdiv (vsub (com_p ns) (com_p (cur_stance s)))
               (rem_time s + duration ns + (1 / 2) * duration nns)))
   \<and> (startswith (label (cur_stance s)) ''DS'' \<and> next_stance s = Inr ns
        \<and> foot_t (stance_foot_of (cur_stance s)) = Inr ft \<longrightarrow>
      get_preview_targets s =
        Inr (rem_time s, rem_time s + (1 / 2) * duration ns, com_p (cur_stance s),
             smul (4 / 10) ft))
   \<and> (startswith (label (cur_stance s)) ''SS''
        \<and> rem_time s \<ge> (1 / 2) * duration (cur_stance s)
        \<and> foot_t (stance_foot_of (cur_stance s)) = Inr ft \<longrightarrow>
      get_preview_targets s =
        Inr (rem_time s, rem_time s, com_p (cur_stance s), smul (4 / 10) ft))"
proof (intro conjI impI)
  assume "startswith (label (cur_stance s)) ''SS'' \<and> rem_time s < (1 / 2) * duration (cur_stance s)
      \<and> next_stance s = Inr ns \<and> next_next_stance s = Inr nns"
  then show "get_preview_targets s =
        Inr (rem_time s, rem_time s + duration ns + (1 / 2) * duration nns, com_p ns,
             sdiv (vsub (com_p ns) (com_p (cur_stance s)))
               (rem_time s + duration ns + (1 / 2) * duration nns))"
    by (simp add: get_preview_targets_def Let_def)
next
  assume a: "startswith (label (cur_stance s)) ''DS'' \<and> next_stance s = Inr ns
        \<and> foot_t (stance_foot_of (cur_stance s)) = Inr ft"
  then have "\<not> startswith (label (cur_stance s)) ''SS''"
    using ds_not_ss by blast
  then show "get_preview_targets s =
        Inr (rem_time s, rem_time s + (1 / 2) * duration ns, com_p (cur_stance s),
             smul (4 / 10) ft)"
    using a by (simp add: get_preview_targets_def stance_foot_of_def Let_def)
next
  assume a: "startswith (label (cur_stance s)) ''SS''
        \<and> rem_time s \<ge> (1 / 2) * duration (cur_stance s)
        \<and> foot_t (stance_foot_of (cur_stance s)) = Inr ft"
  then have "\<not> startswith (label (cur_stance s)) ''DS''"
    using ds_not_ss by blast
  then show "get_preview_targets s =
        Inr (rem_time s, rem_time s, com_p (cur_stance s), smul (4 / 10) ft)"
    using a by (simp add: get_preview_targets_def stance_foot_of_def Let_def)
qed

text \<open>The three cases on the scene's machine.\<close>

theorem C4_preview_targets_witness:
  "get_preview_targets (ex_fsm 1 (2 / 10) False)
     = Inr (2 / 10, 125 / 100, (2 / 10, - (1 / 10), 8 / 10), (- (16 / 100), 0, 0))
   \<and> get_preview_targets (ex_fsm 0 (1 / 10) False)
     = Inr (1 / 10, 6 / 10, (2 / 10, - (1 / 10), 8 / 10), (4 / 10, 0, 0))
   \<and> get_preview_targets (ex_fsm 1 (8 / 10) False)
     = Inr (8 / 10, 8 / 10, (4 / 10, - (1 / 10), 8 / 10), (4 / 10, 0, 0))"
proof -
  have n1: "next_stance (ex_fsm 1 (2 / 10) False) = Inr ex_ds"
    "next_next_stance (ex_fsm 1 (2 / 10) False) = Inr ex_ds"
    by (simp_all add: next_stance_def next_next_stance_def ex_fsm_def py_index_def)
  have n0: "next_stance (ex_fsm 0 (1 / 10) False) = Inr ex_ss"
    by (simp add: next_stance_def ex_fsm_def py_index_def)
  have f: "foot_t (stance_foot_of ex_ds) = Inr (1, 0, 0)"
    "foot_t (stance_foot_of ex_ss) = Inr (1, 0, 0)"
    by (simp_all add: foot_t_def stance_foot_of_def ex_ds_def ex_ss_def ex_right_def
        endswith_def)
  have a: "get_preview_targets (ex_fsm 1 (2 / 10) False)
     = Inr (2 / 10, 125 / 100, (2 / 10, - (1 / 10), 8 / 10), (- (16 / 100), 0, 0))"
    using C4_preview_targets [of "ex_fsm 1 (2 / 10) False" ex_ds ex_ds] n1
    by (simp add: ex_fsm_def ex_ss_def ex_ds_def startswith_def sdiv_def vsub_def)
  have b: "get_preview_targets (ex_fsm 0 (1 / 10) False)
     = Inr (1 / 10, 6 / 10, (2 / 10, - (1 / 10), 8 / 10), (4 / 10, 0, 0))"
    using C4_preview_targets [of "ex_fsm 0 (1 / 10) False" ex_ss ex_ss "(1, 0, 0)"] n0 f
    by (simp add: ex_fsm_def ex_ss_def ex_ds_def startswith_def smul_def)
  have c: "get_preview_targets (ex_fsm 1 (8 / 10) False)
     = Inr (8 / 10, 8 / 10, (4 / 10, - (1 / 10), 8 / 10), (4 / 10, 0, 0))"
    using C4_preview_targets [of "ex_fsm 1 (8 / 10) False" ex_ds ex_ds "(1, 0, 0)"] f
    by (simp add: ex_fsm_def ex_ss_def startswith_def smul_def)
  show ?thesis using a b c by blast
qed

text \<open>
  Claim C4, as stated, takes the velocity in (i) from the current COM. The machine
  takes it from the current stance's COM reference: with the robot's COM at
  \<open>(0, 0, 0.8)\<close> and the stance's reference at \<open>(0.4, -0.1, 0.8)\<close> the returned velocity is
  \<open>(-0.16, 0, 0)\<close>, where the claim's formula gives \<open>(0.16, -0.08, 0)\<close>.
\<close>

theorem C4_velocity_from_stance_counterexample:
  "startswith (label (cur_stance (ex_fsm 1 (2 / 10) False))) ''SS''
   \<and> rem_time (ex_fsm 1 (2 / 10) False)
       < (1 / 2) * duration (cur_stance (ex_fsm 1 (2 / 10) False))
   \<and> get_preview_targets (ex_fsm 1 (2 / 10) False)
       = Inr (2 / 10, 125 / 100, (2 / 10, - (1 / 10), 8 / 10), (- (16 / 100), 0, 0))
   \<and> sdiv (vsub (2 / 10, - (1 / 10), 8 / 10) (robot_com (robot (ex_fsm 1 (2 / 10) False))))
       (125 / 100) = (16 / 100, - (8 / 100), 0)"
  by (simp add: get_preview_targets_def next_stance_def next_next_stance_def ex_fsm_def
      py_index_def ex_ss_def ex_ds_def ex_robot_def startswith_def endswith_def sdiv_def
      vsub_def)

subsection \<open>The primal sub-phases of the tube\<close>

lemma length_tube_vertices: "length (tube_vertices tb) = 8"
  by (simp add: tube_vertices_def Let_def)

text \<open>
  Claim C3, amended: for every COM tube whose start stance is single-support and whose
  start stance's COM reference \<^verbatim>\<open>start_stance.com.p\<close> equals \<^verbatim>\<open>target_com\<close> within \<open>1e-3\<close>
  componentwise, \<^verbatim>\<open>compute_primal_vrep\<close> produces exactly one primal sub-phase, the full
  swept volume of eight vertices, with no singleton sub-phase before or after it.
\<close>

theorem C3_single_phase_at_stance_reference:
  assumes "startswith (label (start_stance tb)) ''SS''"
    "all_less (vabs (vsub (com_p (start_stance tb)) (target_com tb))) (1 / 1000)"
  shows "primal_vrep (compute_primal_vrep tb) = [tube_vertices tb]
    \<and> full_vrep (compute_primal_vrep tb) = Some (tube_vertices tb)
    \<and> length (tube_vertices tb) = 8"
  using assms by (simp add: compute_primal_vrep_def Let_def length_tube_vertices)

text \<open>A tube started in the scene's single support and aimed at that stance's reference.\<close>

theorem C3_single_phase_at_stance_reference_witness:
  "primal_vrep (compute_primal_vrep
      (COMTube (0, 0, 8 / 10) (4 / 10, - (1 / 10), 8 / 10) ex_ss ex_ds (1 / 100) (1 / 100)))
     = [tube_vertices
          (COMTube (0, 0, 8 / 10) (4 / 10, - (1 / 10), 8 / 10) ex_ss ex_ds (1 / 100) (1 / 100))]"
proof -
  let ?tb = "COMTube (0, 0, 8 / 10) (4 / 10, - (1 / 10), 8 / 10) ex_ss ex_ds (1 / 100) (1 / 100)"
  have ss: "startswith (label (start_stance ?tb)) ''SS''"
    by (simp add: COMTube_def ex_ss_def startswith_def)
  have near: "all_less (vabs (vsub (com_p (start_stance ?tb)) (target_com ?tb))) (1 / 1000)"
    by (simp add: COMTube_def ex_ss_def all_less_def vabs_def vsub_def)
  show ?thesis
    using C3_single_phase_at_stance_reference [OF ss near] by simp
qed

text \<open>
  Claim C3, as stated, compares \<^verbatim>\<open>start_com\<close> with \<^verbatim>\<open>target_com\<close>. The code compares the
  start stance's COM reference: a single-support tube whose start and target agree
  within \<open>1e-3\<close>, away from the stance's reference, gets two sub-phases, the singleton
  \<^verbatim>\<open>[start_com]\<close> first.
\<close>

theorem C3_start_at_target_counterexample:
  "startswith (label (start_stance ex_tube_still)) ''SS''
   \<and> all_less (vabs (vsub (start_com ex_tube_still) (target_com ex_tube_still))) (1 / 1000)
   \<and> primal_vrep (compute_primal_vrep ex_tube_still)
       = [[(0, 0, 8 / 10)], tube_vertices ex_tube_still]"
  by (simp add: compute_primal_vrep_def ex_tube_still_def COMTube_def ex_ss_def
      startswith_def all_less_def vabs_def vsub_def Let_def)

subsection \<open>The dual cones of a tube with two sub-phases\<close>

lemma reduced_cones_two_phases:
  assumes "primal_vrep tb = [p0, p1]" "full_vrep tb = Some fv"
  shows "reduced_cones lib ds_then_ss tb =
     (if ds_then_ss
      then Inr (pendular_cone_reduced lib (start_stance tb) fv,
                pendular_cone_reduced lib (tube_next_stance tb) p1)
      else Inr (pendular_cone_reduced lib (tube_next_stance tb) fv,
                pendular_cone_reduced lib (start_stance tb) p0))"
  using assms by (simp add: reduced_cones_def get_full_vrep_def py_index_def)

text \<open>
  Claim C1: for every COM tube with two primal sub-phases, \<^verbatim>\<open>compute_dual_vrep\<close> builds
  the single-support sub-phase's cone from \<^verbatim>\<open>intersect_polygons\<close> of the two stances'
  reduced pendular cones, and the double-support sub-phase's cone from the
  double-support stance's reduced cone alone. When the first sub-phase is the volume
  (double support, then single support) the double-support stance is the start stance;
  when it is a single point, the next stance. The single-support cone is thus always
  the intersection of both stances' cones, in either order of the sub-phases.
\<close>

theorem C1_single_support_cone_is_intersection:
  assumes "primal_vrep tb = [p0, p1]" "full_vrep tb = Some fv"
  shows "compute_dual_vrep lib tb =
     Inr (tb\<lparr>dual_vrep :=
       (if length p0 > 1
        then [expand_reduced_pendular_cone (gravity lib)
                (pendular_cone_reduced lib (start_stance tb) fv) None,
              expand_reduced_pendular_cone (gravity lib)
                (intersect_polygons lib
                   (pendular_cone_reduced lib (start_stance tb) fv)
                   (pendular_cone_reduced lib (tube_next_stance tb) p1)) None]
        else [expand_reduced_pendular_cone (gravity lib)
                (intersect_polygons lib
                   (pendular_cone_reduced lib (tube_next_stance tb) fv)
                   (pendular_cone_reduced lib (start_stance tb) p0)) None,
              expand_reduced_pendular_cone (gravity lib)
                (pendular_cone_reduced lib (tube_next_stance tb) fv) None])\<rparr>)"
  using assms(1)
  by (simp add: compute_dual_vrep_def py_index_def reduced_cones_two_phases [OF assms] Let_def)

text \<open>Both orders on the scene: the single-support cone comes from the inner square.\<close>

theorem C1_single_support_cone_is_intersection_witness:
  "compute_dual_vrep ex_cones (compute_primal_vrep ex_tube_ds) =
     Inr ((compute_primal_vrep ex_tube_ds)\<lparr>dual_vrep :=
        [expand_reduced_pendular_cone (0, 0, - (981 / 100)) (ex_square 1) None,
         expand_reduced_pendular_cone (0, 0, - (981 / 100)) (ex_square (1 / 2)) None]\<rparr>)
   \<and> compute_dual_vrep ex_cones (compute_primal_vrep ex_tube_ss) =
     Inr ((compute_primal_vrep ex_tube_ss)\<lparr>dual_vrep :=
        [expand_reduced_pendular_cone (0, 0, - (981 / 100)) (ex_square (1 / 2)) None,
         expand_reduced_pendular_cone (0, 0, - (981 / 100)) (ex_square 1) None]\<rparr>)"
proof -
  have pd: "primal_vrep (compute_primal_vrep ex_tube_ds)
      = [tube_vertices ex_tube_ds, [(2 / 10, - (1 / 10), 8 / 10)]]"
    and fd: "full_vrep (compute_primal_vrep ex_tube_ds) = Some (tube_vertices ex_tube_ds)"
    by (simp_all add: compute_primal_vrep_def ex_tube_ds_def COMTube_def ex_ds_def
        startswith_def Let_def)
  have ps: "primal_vrep (compute_primal_vrep ex_tube_ss)
      = [[(0, 0, 8 / 10)], tube_vertices ex_tube_ss]"
    and fs: "full_vrep (compute_primal_vrep ex_tube_ss) = Some (tube_vertices ex_tube_ss)"
    by (simp_all add: compute_primal_vrep_def ex_tube_ss_def COMTube_def ex_ss_def
        startswith_def all_less_def vabs_def vsub_def Let_def)
  have sd: "start_stance (compute_primal_vrep ex_tube_ds) = ex_ds"
    "tube_next_stance (compute_primal_vrep ex_tube_ds) = ex_ss"
    "start_stance (compute_primal_vrep ex_tube_ss) = ex_ss"
    "tube_next_stance (compute_primal_vrep ex_tube_ss) = ex_ds"
    by (simp_all add: compute_primal_vrep_def ex_tube_ds_def ex_tube_ss_def COMTube_def Let_def)
  have a: "compute_dual_vrep ex_cones (compute_primal_vrep ex_tube_ds) =
     Inr ((compute_primal_vrep ex_tube_ds)\<lparr>dual_vrep :=
        [expand_reduced_pendular_cone (0, 0, - (981 / 100)) (ex_square 1) None,
         expand_reduced_pendular_cone (0, 0, - (981 / 100)) (ex_square (1 / 2)) None]\<rparr>)"
    using C1_single_support_cone_is_intersection [OF pd fd, of ex_cones]
    by (simp add: sd length_tube_vertices ex_cones_def ex_ds_def ex_ss_def startswith_def
        ex_square_def)
  have b: "compute_dual_vrep ex_cones (compute_primal_vrep ex_tube_ss) =
     Inr ((compute_primal_vrep ex_tube_ss)\<lparr>dual_vrep :=
        [expand_reduced_pendular_cone (0, 0, - (981 / 100)) (ex_square (1 / 2)) None,
         expand_reduced_pendular_cone (0, 0, - (981 / 100)) (ex_square 1) None]\<rparr>)"
    using C1_single_support_cone_is_intersection [OF ps fs, of ex_cones]
    by (simp add: sd ex_cones_def ex_ds_def ex_ss_def startswith_def ex_square_def)
  show ?thesis using a b by blast
qed


subsection \<open>The vertical extent of the dual cones\<close>

lemma dual_vrep_expanded:
  assumes "primal_vrep tb = [p0, p1]" "full_vrep tb = Some fv"
  shows "\<exists>a b. compute_dual_vrep lib tb =
     Inr (tb\<lparr>dual_vrep := [expand_reduced_pendular_cone (gravity lib) a None,
                           expand_reduced_pendular_cone (gravity lib) b None]\<rparr>)"
proof (cases "length p0 > 1")
  case True
  then show ?thesis
    using assms(1)
    by (simp add: compute_dual_vrep_def py_index_def reduced_cones_two_phases [OF assms]
        Let_def) blast
next
  case False
  then show ?thesis
    using assms(1)
    by (simp add: compute_dual_vrep_def py_index_def reduced_cones_two_phases [OF assms]
        Let_def) blast
qed

lemma expand_vertical:
  assumes "v \<in> set (expand_reduced_pendular_cone grav red None)"
  shows "z_of v = z_of grav \<or> z_of v = - z_of grav"
  using assms by (auto simp add: expand_reduced_pendular_cone_def z_of_def Let_def)

text \<open>
  Claim C2, amended: for every COM tube with two primal sub-phases, \<^verbatim>\<open>compute_dual_vrep\<close>
  returns two dual cones, each expanded from its reduced cone; the first vertex of each
  is the gravity vector itself, and every vertex has vertical component either \<open>-g\<close>
  (the gravity vector's) or \<open>+g\<close>, where \<open>g\<close> is minus the vertical component of gravity.
\<close>

theorem C2_vertical_extremes:
  assumes "primal_vrep tb = [p0, p1]" "full_vrep tb = Some fv"
  shows "case compute_dual_vrep lib tb of
           Inl e \<Rightarrow> False
         | Inr tb' \<Rightarrow>
             length (dual_vrep tb') = 2
             \<and> (\<forall>cone \<in> set (dual_vrep tb').
                  hd cone = gravity lib
                  \<and> (\<forall>v \<in> set cone.
                       z_of v = z_of (gravity lib) \<or> z_of v = - z_of (gravity lib)))"
proof -
  have hd_expand: "hd (expand_reduced_pendular_cone (gravity lib) red None) = gravity lib"
    for red
    by (simp add: expand_reduced_pendular_cone_def Let_def)
  obtain a b where "compute_dual_vrep lib tb =
     Inr (tb\<lparr>dual_vrep := [expand_reduced_pendular_cone (gravity lib) a None,
                           expand_reduced_pendular_cone (gravity lib) b None]\<rparr>)"
    using dual_vrep_expanded [OF assms] by blast
  then show ?thesis
    by (auto simp add: hd_expand dest: expand_vertical)
qed

text \<open>The scene's double-support tube, with gravity \<open>(0, 0, -9.81)\<close>.\<close>

theorem C2_vertical_extremes_witness:
  "(case compute_dual_vrep ex_cones (compute_primal_vrep ex_tube_ds) of
      Inl e \<Rightarrow> False
    | Inr tb' \<Rightarrow> length (dual_vrep tb') = 2 \<and> list_all (\<lambda>cone. hd cone = (0, 0, - (981 / 100))) (dual_vrep tb'))"
proof -
  have pd: "primal_vrep (compute_primal_vrep ex_tube_ds)
      = [tube_vertices ex_tube_ds, [(2 / 10, - (1 / 10), 8 / 10)]]"
    and fd: "full_vrep (compute_primal_vrep ex_tube_ds) = Some (tube_vertices ex_tube_ds)"
    by (simp_all add: compute_primal_vrep_def ex_tube_ds_def COMTube_def ex_ds_def
        startswith_def Let_def)
  have g: "gravity ex_cones = (0, 0, - (981 / 100))"
    by (simp add: ex_cones_def)
  show ?thesis
    using C2_vertical_extremes [OF pd fd, of ex_cones]
    by (auto simp add: g list_all_iff split: sum.splits)
qed

text \<open>
  Claim C2, as stated, puts every vertex at \<open>zdd = 0\<close> or \<open>zdd = g\<close>. With \<open>g = 9.81\<close> each
  cone of the scene's tube starts with a vertex at \<open>zdd = -9.81\<close>, the gravity vector,
  and has no vertex at \<open>zdd = 0\<close>.
\<close>

theorem C2_apex_below_zero_counterexample:
  "(case compute_dual_vrep ex_cones (compute_primal_vrep ex_tube_ds) of
      Inl e \<Rightarrow> []
    | Inr tb' \<Rightarrow> map (map z_of) (dual_vrep tb'))
     = [[- (981 / 100), 981 / 100, 981 / 100, 981 / 100, 981 / 100],
        [- (981 / 100), 981 / 100, 981 / 100, 981 / 100, 981 / 100]]
   \<and> - z_of (gravity ex_cones) = 981 / 100"
proof -
  have pd: "primal_vrep (compute_primal_vrep ex_tube_ds)
      = [tube_vertices ex_tube_ds, [(2 / 10, - (1 / 10), 8 / 10)]]"
    and fd: "full_vrep (compute_primal_vrep ex_tube_ds) = Some (tube_vertices ex_tube_ds)"
    by (simp_all add: compute_primal_vrep_def ex_tube_ds_def COMTube_def ex_ds_def
        startswith_def Let_def)
  have "start_stance (compute_primal_vrep ex_tube_ds) = ex_ds"
    "tube_next_stance (compute_primal_vrep ex_tube_ds) = ex_ss"
    by (simp_all add: compute_primal_vrep_def ex_tube_ds_def COMTube_def Let_def)
  then show ?thesis
    by (simp add: compute_dual_vrep_def py_index_def pd reduced_cones_two_phases [OF pd fd]
        length_tube_vertices ex_cones_def ex_ds_def ex_ss_def startswith_def
        expand_reduced_pendular_cone_def ex_square_def z_of_def Let_def)
qed

subsection \<open>The constraints of the preview steps\<close>

text \<open>
  What the loop over the preview steps assigns: with a second pair bound, step \<open>k\<close>
  takes the first pair when \<open>k \<le> switch_step\<close> and the second otherwise; with
  \<open>switch_step \<ge> N - 1\<close> every step takes the first pair and the second is never read;
  with a negative \<open>switch_step\<close> the first step already reads the unbound second pair.
\<close>

lemma assign_steps_two_pairs:
  "assign_steps c1 (Some c2) sw ks = Inr (map (\<lambda>k. if int k \<le> sw then c1 else c2) ks)"
  by (induction ks) simp_all

lemma assign_steps_first_only:
  assumes "\<forall>k \<in> set ks. int k \<le> sw"
  shows "assign_steps c1 c2 sw ks = Inr (replicate (length ks) c1)"
  using assms by (induction ks) simp_all

lemma assign_steps_unbound:
  assumes "sw < 0" "ks \<noteq> []"
  shows "assign_steps c1 None sw ks = Inl UnboundLocalError"
  using assms by (cases ks) simp_all

lemma step_constraints_switch:
  assumes "hrep = c1 # c2 # cs" "0 \<le> sw" "sw < n - 1"
  shows "step_constraints hrep sw n
    = Inr (map (\<lambda>k. if int k \<le> sw then c1 else c2) [0..<nat n])"
  using assms
  by (simp add: step_constraints_def second_pair_def py_index_def assign_steps_two_pairs)

lemma step_constraints_single:
  assumes "hrep = c1 # cs" "sw \<ge> n - 1"
  shows "step_constraints hrep sw n = Inr (replicate (nat n) c1)"
proof -
  have "\<forall>k \<in> set [0..<nat n]. int k \<le> sw"
    using assms(2) by auto
  then have "assign_steps c1 None sw [0..<nat n] = Inr (replicate (length [0..<nat n]) c1)"
    by (rule assign_steps_first_only)
  then show ?thesis
    using assms by (simp add: step_constraints_def second_pair_def py_index_def)
qed

lemma step_constraints_negative:
  assumes "hrep = c1 # cs" "sw < 0" "0 < n"
  shows "step_constraints hrep sw n = Inl UnboundLocalError"
proof -
  have "[0..<nat n] \<noteq> []" using assms(3) by simp
  then have "assign_steps c1 None sw [0..<nat n] = Inl UnboundLocalError"
    using assms(2) by (intro assign_steps_unbound)
  then show ?thesis
    using assms by (simp add: step_constraints_def second_pair_def py_index_def)
qed

text \<open>A switch time inside the horizon gives a switch step in \<open>[0, N)\<close>.\<close>

lemma switch_step_in_horizon:
  assumes "0 \<le> switch_time" "switch_time < horizon" "0 < n"
  shows "0 \<le> py_int (switch_time / (horizon / real_of_int n))
    \<and> py_int (switch_time / (horizon / real_of_int n)) < n"
proof -
  have h: "0 < horizon" using assms by simp
  let ?q = "switch_time / (horizon / real_of_int n)"
  have q: "?q = switch_time * real_of_int n / horizon" by simp
  have nonneg: "0 \<le> ?q" using assms h by simp
  have "switch_time * real_of_int n < horizon * real_of_int n"
    using assms by simp
  then have lt: "?q < real_of_int n"
    using h by (simp add: q pos_divide_less_eq mult.commute)
  have "py_int ?q = \<lfloor>?q\<rfloor>" using nonneg by (simp add: py_int_def)
  moreover have "0 \<le> \<lfloor>?q\<rfloor>" using nonneg by simp
  moreover have "\<lfloor>?q\<rfloor> < n" using lt by (simp add: floor_less_iff)
  ultimately show ?thesis by simp
qed

subsection \<open>A failed solve keeps the preview buffer\<close>

text \<open>
  Claim C5: when the problem is built and \<^verbatim>\<open>solve\<close> raises \<^verbatim>\<open>ValueError\<close>,
  \<^verbatim>\<open>compute_preview_control\<close> prints the failure message, raises nothing, and changes
  nothing but the stored \<^verbatim>\<open>preview_control\<close>: the preview buffer, with its \<^verbatim>\<open>U\<close>, \<^verbatim>\<open>dT\<close>,
  cursor, \<^verbatim>\<open>nb_steps\<close> and \<^verbatim>\<open>switch_step\<close>, is the one before the call.
\<close>

theorem C5_buffer_kept_when_solve_fails:
  assumes "preview_problem switch_time horizon state_constraints s = Inr pc"
    "solve pc = Inl ValueError"
  shows "compute_preview_control solve switch_time horizon state_constraints s
           = (s\<lparr>preview_control := Some pc\<rparr>, [qp_failed_message], None)
    \<and> preview_buffer (fst (compute_preview_control solve switch_time horizon state_constraints s))
        = preview_buffer s"
  using assms by (simp add: compute_preview_control_def Let_def)

text \<open>The scene's controller, whose buffer holds one control, with a solver that fails.\<close>

lemma ex_problem:
  "\<exists>pc. preview_problem (3 / 10) 1 False ex_mpc = Inr pc"
proof -
  have "step_constraints ex_hrep 6 20
    = Inr (map (\<lambda>k. if int k \<le> 6 then ([[1, 0, 0]], [1]) else ([[0, 1, 0]], [2])) [0..<nat 20])"
    by (rule step_constraints_switch) (simp_all add: ex_hrep_def)
  then show ?thesis
    by (simp add: preview_problem_def ex_mpc_def py_int_def Let_def)
qed

theorem C5_buffer_kept_when_solve_fails_witness:
  "preview_buffer (fst (compute_preview_control ex_infeasible (3 / 10) 1 False ex_mpc))
     = update_preview [1, 2, 3] [1 / 10] None (PreviewBuffer 3)
   \<and> fst (snd (compute_preview_control ex_infeasible (3 / 10) 1 False ex_mpc))
     = [qp_failed_message]"
proof -
  obtain pc where pc: "preview_problem (3 / 10) 1 False ex_mpc = Inr pc"
    using ex_problem by blast
  have f: "ex_infeasible pc = Inl ValueError"
    by (simp add: ex_infeasible_def)
  have b: "preview_buffer ex_mpc = update_preview [1, 2, 3] [1 / 10] None (PreviewBuffer 3)"
    by (simp add: ex_mpc_def)
  show ?thesis
    using C5_buffer_kept_when_solve_fails [where solve = ex_infeasible, OF pc f] b by simp
qed

subsection \<open>A negative switch step\<close>

text \<open>
  Claim C9 at a switch time below zero, as the machine's \<^verbatim>\<open>rem_time\<close> is after the tick
  that uses it up: with \<open>switch_time = -0.02\<close>, \<open>horizon = 0.3\<close> and twenty steps,
  \<^verbatim>\<open>switch_step\<close> is \<open>-1\<close>, outside \<open>[0, N - 1)\<close>. The claim has all steps take the first
  pair; the code leaves \<^verbatim>\<open>D2\<close> unbound and reads it at step \<open>0\<close>, so the call raises
  \<^verbatim>\<open>UnboundLocalError\<close> and computes no control, whatever the solver.
\<close>

theorem C9_negative_switch_step_raises:
  "py_int (- (2 / 100) / (3 / 10 / real_of_int (nb_mpc_steps ex_mpc))) = - 1
   \<and> compute_preview_control solve (- (2 / 100)) (3 / 10) False ex_mpc
       = (ex_mpc, [], Some UnboundLocalError)"
proof -
  have sw: "py_int (- (2 / 100) / (3 / 10 / real_of_int (nb_mpc_steps ex_mpc))) = - 1"
    by (simp add: ex_mpc_def py_int_def)
  have "step_constraints ex_hrep (- 1) 20 = Inl UnboundLocalError"
    by (rule step_constraints_negative) (simp_all add: ex_hrep_def)
  then have "preview_problem (- (2 / 100)) (3 / 10) False ex_mpc = Inl UnboundLocalError"
    using sw by (simp add: preview_problem_def ex_mpc_def Let_def)
  then show ?thesis
    using sw by (simp add: compute_preview_control_def)
qed

end
